theory Spec2Isabelle
  imports Complex_Main
begin

section \<open>Python values and errors\<close>

text \<open>
  The exceptions that \<^verbatim>\<open>skopt/space/space.py\<close> raises, or that the Python operations it
  uses raise. A function that can raise returns \<open>error + 'a\<close>, with \<open>Inl\<close> the exception.
\<close>

datatype error =
  ValueError | RuntimeError | TypeError | ZeroDivisionError | IndexError | AttributeError

text \<open>
  The Python values a dimension description, a category or a point can hold. The
  constructors follow the classes that \<^verbatim>\<open>check_dimension\<close> tells apart with
  \<^verbatim>\<open>isinstance\<close>: \<open>NpInt\<close> is a numpy integer scalar (a \<^verbatim>\<open>numbers.Integral\<close> that is
  not an \<^verbatim>\<open>int\<close>), \<open>NpFloat\<close> a numpy floating scalar other than float64 (a
  \<^verbatim>\<open>numbers.Real\<close> that is not a \<^verbatim>\<open>float\<close>), \<open>NpBool\<close> is \<^verbatim>\<open>np.bool_\<close>. Numbers are
  unbounded integers and real numbers: floating-point rounding is not represented.
\<close>

datatype pyval =
  PNone | PBool bool | PInt int | PFloat real | PStr string
  | NpBool bool | NpInt int | NpFloat real

text \<open>The number a value denotes in arithmetic and comparisons, if it is one.\<close>

fun py_num :: "pyval \<Rightarrow> real option" where
  "py_num PNone = None"
| "py_num (PBool b) = Some (if b then 1 else 0)"
| "py_num (PInt i) = Some (of_int i)"
| "py_num (PFloat x) = Some x"
| "py_num (PStr s) = None"
| "py_num (NpBool b) = Some (if b then 1 else 0)"
| "py_num (NpInt i) = Some (of_int i)"
| "py_num (NpFloat x) = Some x"

text \<open>Python's \<^verbatim>\<open>==\<close>: numbers compare by value across types, strings by content.\<close>

definition py_eq :: "pyval \<Rightarrow> pyval \<Rightarrow> bool" where
  "py_eq a b =
     (case (py_num a, py_num b) of
        (Some x, Some y) \<Rightarrow> x = y
      | (Some x, None) \<Rightarrow> False
      | (None, Some y) \<Rightarrow> False
      | (None, None) \<Rightarrow> a = b)"

text \<open>Python's \<^verbatim>\<open>x in seq\<close> on a list or tuple.\<close>

primrec py_in :: "pyval \<Rightarrow> pyval list \<Rightarrow> bool" where
  "py_in x [] = False"
| "py_in x (y # ys) = (py_eq x y \<or> py_in x ys)"

text \<open>\<^verbatim>\<open>isinstance\<close> tests of \<^verbatim>\<open>check_dimension\<close>. A \<^verbatim>\<open>bool\<close> is an \<^verbatim>\<open>int\<close>.\<close>

fun is_str_or_bool :: "pyval \<Rightarrow> bool" where
  "is_str_or_bool (PStr s) = True"
| "is_str_or_bool (PBool b) = True"
| "is_str_or_bool (NpBool b) = True"
| "is_str_or_bool v = False"

fun is_Integral :: "pyval \<Rightarrow> bool" where
  "is_Integral (PBool b) = True"
| "is_Integral (PInt i) = True"
| "is_Integral (NpInt i) = True"
| "is_Integral v = False"

fun is_Real :: "pyval \<Rightarrow> bool" where
  "is_Real (PBool b) = True"
| "is_Real (PInt i) = True"
| "is_Real (PFloat x) = True"
| "is_Real (NpInt i) = True"
| "is_Real (NpFloat x) = True"
| "is_Real v = False"

fun is_int :: "pyval \<Rightarrow> bool" where
  "is_int (PBool b) = True"
| "is_int (PInt i) = True"
| "is_int v = False"

fun is_float_or_int :: "pyval \<Rightarrow> bool" where
  "is_float_or_int (PBool b) = True"
| "is_float_or_int (PInt i) = True"
| "is_float_or_int (PFloat x) = True"
| "is_float_or_int v = False"

text \<open>Python's \<^verbatim>\<open>sub in s\<close> on strings.\<close>

fun starts_with :: "string \<Rightarrow> string \<Rightarrow> bool" where
  "starts_with [] s = True"
| "starts_with (c # cs) [] = False"
| "starts_with (c # cs) (d # ds) = (c = d \<and> starts_with cs ds)"

fun str_contains :: "string \<Rightarrow> string \<Rightarrow> bool" where
  "str_contains sub [] = (sub = [])"
| "str_contains sub (c # cs) = (starts_with sub (c # cs) \<or> str_contains sub cs)"

section \<open>Transformers and sampling distributions\<close>

text \<open>
  The transformer objects of \<^verbatim>\<open>skopt/space/transformers.py\<close>, as
  \<^verbatim>\<open>set_transformer\<close> builds them. \<open>Normalize low high is_int unbounded n_categories\<close>
  carries the constructor's arguments; an encoder carries the categories it was fitted on.
\<close>

datatype transformer =
  Identity
  | LogN real
  | Normalize real real bool bool "nat option"
  | CategoricalEncoder "pyval list"
  | StringEncoder "pyval list"
  | LabelEncoder "pyval list"
  | Pipeline "transformer list"

text \<open>
  The frozen scipy distributions held in \<^verbatim>\<open>_rvs\<close>. \<open>UniformInclusive loc scale\<close> is what
  \<^verbatim>\<open>_uniform_inclusive(loc, scale)\<close> returns, the distribution
  \<^verbatim>\<open>uniform(loc=loc, scale=np.nextafter(scale, scale + 1.))\<close>, kept with the nominal
  \<open>scale\<close>; \<open>generator_scale\<close> below computes the width. \<open>Randint low high\<close> is \<^verbatim>\<open>randint(low, high)\<close> and
  \<open>RvDiscrete xk pk\<close> is \<^verbatim>\<open>rv_discrete(values=(xk, pk))\<close>.
\<close>

datatype distribution =
  UniformInclusive real real
  | Randint real real
  | RvDiscrete "nat list" "real list"

definition uniform_inclusive :: "real \<Rightarrow> real \<Rightarrow> distribution" where
  "uniform_inclusive loc scale = UniformInclusive loc scale"

section \<open>Dimensions\<close>

text \<open>
  \<open>DStr s\<close> is a dtype given by name (\<^verbatim>\<open>'float32'\<close>), \<open>DType s\<close> a type object, named by
  how the source writes it (\<^verbatim>\<open>float\<close>, \<^verbatim>\<open>np.int64\<close>).
\<close>

datatype dtype = DStr string | DType string

text \<open>
  The attributes every dimension has. \<open>transform_mode\<close> is the source's
  \<^verbatim>\<open>transform_\<close>, \<open>rvs_dist\<close> its \<^verbatim>\<open>_rvs\<close>, and \<open>prior_weights\<close> below its
  \<^verbatim>\<open>prior_\<close> (a name cannot start or end with an underscore here).
\<close>

record dimension_base =
  name :: "string option"
  transform_mode :: string
  transformer :: "transformer option"
  rvs_dist :: "distribution option"

text \<open>\<^verbatim>\<open>Real\<close> and \<^verbatim>\<open>Integer\<close> have the same attributes.\<close>

record numeric_dim = dimension_base +
  low :: real
  high :: real
  prior :: string
  base :: real
  log_base :: real
  dtype :: dtype

record categorical_dim = dimension_base +
  categories :: "pyval list"
  cat_prior :: "real list option"
  prior_weights :: "real list"

datatype dimension =
  Real numeric_dim | Integer numeric_dim | Categorical categorical_dim

text \<open>
  The setter of \<^verbatim>\<open>Dimension.name\<close>: a string or \<^verbatim>\<open>None\<close>, anything else raises
  \<^verbatim>\<open>ValueError\<close>.
\<close>

fun name_setter :: "pyval \<Rightarrow> error + string option" where
  "name_setter (PStr s) = Inr (Some s)"
| "name_setter PNone = Inr None"
| "name_setter v = Inl ValueError"

subsection \<open>Real\<close>

text \<open>
  \<^verbatim>\<open>Real.set_transformer\<close>. It assigns \<^verbatim>\<open>self.transform_\<close> before it checks the mode, so
  the dimension it leaves behind is returned also when it raises.
\<close>

definition Real_set_transformer :: "numeric_dim \<Rightarrow> string \<Rightarrow> error option \<times> numeric_dim" where
  "Real_set_transformer self0 transform =
     (let self = self0\<lparr>transform_mode := transform\<rparr> in
      if transform_mode self \<notin> set [''normalize'', ''identity'', ''normalize_unbounded'']
      then (Some ValueError, self)
      else if str_contains ''normalize'' (transform_mode self) then
        (let is_unbounded = (transform_mode self = ''normalize_unbounded'');
             self = self\<lparr>rvs_dist := Some (uniform_inclusive 0 1)\<rparr> in
         if prior self = ''uniform'' then
           (None, self\<lparr>transformer := Some (Pipeline
              [Identity, Normalize (low self) (high self) False is_unbounded None])\<rparr>)
         else
           (None, self\<lparr>transformer := Some (Pipeline
              [LogN (base self),
               Normalize (log 10 (low self) / log_base self)
                         (log 10 (high self) / log_base self) False is_unbounded None])\<rparr>))
      else if prior self = ''uniform'' then
        (None, self\<lparr>rvs_dist := Some (uniform_inclusive (low self) (high self - low self)),
                     transformer := Some Identity\<rparr>)
      else
        (None, self\<lparr>rvs_dist := Some (uniform_inclusive
                       (log 10 (low self) / log_base self)
                       (log 10 (high self) / log_base self - log 10 (low self) / log_base self)),
                     transformer := Some (LogN (base self))\<rparr>))"

text \<open>
  \<^verbatim>\<open>Real.__init__\<close>. The bounds and the base are numbers; a value that is not a number
  makes \<^verbatim>\<open>high <= low\<close> or \<^verbatim>\<open>np.log10(base)\<close> raise \<^verbatim>\<open>TypeError\<close>.
\<close>

definition Real_dtype_ok :: "dtype \<Rightarrow> bool" where
  "Real_dtype_ok d =
     (case d of
        DStr s \<Rightarrow> s \<in> set [''float'', ''float16'', ''float32'', ''float64'']
      | DType t \<Rightarrow> t \<in> set [''float'', ''np.float16'', ''np.float32'', ''np.float64''])"

definition Real_init ::
  "pyval \<Rightarrow> pyval \<Rightarrow> pyval \<Rightarrow> pyval \<Rightarrow> string option \<Rightarrow> pyval \<Rightarrow> dtype \<Rightarrow> error + numeric_dim" where
  "Real_init low_arg high_arg prior_arg base_arg transform name_arg dtype_arg =
     (case (py_num low_arg, py_num high_arg) of
        (Some lo, Some hi) \<Rightarrow>
          if hi \<le> lo then Inl ValueError
          else (case prior_arg of
            PStr p \<Rightarrow>
              if p \<notin> set [''uniform'', ''log-uniform''] then Inl ValueError
              else (case py_num base_arg of
                None \<Rightarrow> Inl TypeError
              | Some b \<Rightarrow>
                (case name_setter name_arg of
                   Inl e \<Rightarrow> Inl e
                 | Inr nm \<Rightarrow>
                   if \<not> Real_dtype_ok dtype_arg then Inl ValueError
                   else
                     (let t = (case transform of None \<Rightarrow> ''identity'' | Some s \<Rightarrow> s);
                          self = \<lparr>name = nm, transform_mode = t, transformer = None, rvs_dist = None,
                                  low = lo, high = hi, prior = p, base = b,
                                  log_base = log 10 b, dtype = dtype_arg\<rparr>
                      in case Real_set_transformer self t of
                           (Some e, self') \<Rightarrow> Inl e
                         | (None, self') \<Rightarrow> Inr self')))
          | _ \<Rightarrow> Inl ValueError)
      | _ \<Rightarrow> Inl TypeError)"

subsection \<open>Integer\<close>

text \<open>
  \<^verbatim>\<open>Integer.set_transformer\<close> and \<^verbatim>\<open>Integer.__init__\<close>, which differ from those of
  \<^verbatim>\<open>Real\<close> in the modes, in \<^verbatim>\<open>randint\<close> for the uniform prior and in the dtypes.
\<close>

definition Integer_set_transformer :: "numeric_dim \<Rightarrow> string \<Rightarrow> error option \<times> numeric_dim" where
  "Integer_set_transformer self0 transform =
     (let self = self0\<lparr>transform_mode := transform\<rparr> in
      if transform \<notin> set [''normalize'', ''identity'']
      then (Some ValueError, self)
      else if transform_mode self = ''normalize'' then
        (let self = self\<lparr>rvs_dist := Some (uniform_inclusive 0 1)\<rparr> in
         if prior self = ''uniform'' then
           (None, self\<lparr>transformer := Some (Pipeline
              [Identity, Normalize (low self) (high self) True False None])\<rparr>)
         else
           (None, self\<lparr>transformer := Some (Pipeline
              [LogN (base self),
               Normalize (log 10 (low self) / log_base self)
                         (log 10 (high self) / log_base self) False False None])\<rparr>))
      else if prior self = ''uniform'' then
        (None, self\<lparr>rvs_dist := Some (Randint (low self) (high self + 1)),
                     transformer := Some Identity\<rparr>)
      else
        (None, self\<lparr>rvs_dist := Some (uniform_inclusive
                       (log 10 (low self) / log_base self)
                       (log 10 (high self) / log_base self - log 10 (low self) / log_base self)),
                     transformer := Some (LogN (base self))\<rparr>))"

definition Integer_dtype_ok :: "dtype \<Rightarrow> bool" where
  "Integer_dtype_ok d =
     (case d of
        DStr s \<Rightarrow> s \<in> set [''int'', ''int8'', ''int16'', ''int32'', ''int64'',
                             ''uint8'', ''uint16'', ''uint32'', ''uint64'']
      | DType t \<Rightarrow> t \<in> set [''int'', ''np.int8'', ''np.int16'', ''np.int32'', ''np.int64'',
                              ''np.uint8'', ''np.uint16'', ''np.uint32'', ''np.uint64''])"

definition Integer_init ::
  "pyval \<Rightarrow> pyval \<Rightarrow> pyval \<Rightarrow> pyval \<Rightarrow> string option \<Rightarrow> pyval \<Rightarrow> dtype \<Rightarrow> error + numeric_dim" where
  "Integer_init low_arg high_arg prior_arg base_arg transform name_arg dtype_arg =
     (case (py_num low_arg, py_num high_arg) of
        (Some lo, Some hi) \<Rightarrow>
          if hi \<le> lo then Inl ValueError
          else (case prior_arg of
            PStr p \<Rightarrow>
              if p \<notin> set [''uniform'', ''log-uniform''] then Inl ValueError
              else (case py_num base_arg of
                None \<Rightarrow> Inl TypeError
              | Some b \<Rightarrow>
                (case name_setter name_arg of
                   Inl e \<Rightarrow> Inl e
                 | Inr nm \<Rightarrow>
                   if \<not> Integer_dtype_ok dtype_arg then Inl ValueError
                   else
                     (let t = (case transform of None \<Rightarrow> ''identity'' | Some s \<Rightarrow> s);
                          self = \<lparr>name = nm, transform_mode = t, transformer = None, rvs_dist = None,
                                  low = lo, high = hi, prior = p, base = b,
                                  log_base = log 10 b, dtype = dtype_arg\<rparr>
                      in case Integer_set_transformer self t of
                           (Some e, self') \<Rightarrow> Inl e
                         | (None, self') \<Rightarrow> Inr self')))
          | _ \<Rightarrow> Inl ValueError)
      | _ \<Rightarrow> Inl TypeError)"

subsection \<open>Categorical\<close>

text \<open>
  \<^verbatim>\<open>Categorical.set_transformer\<close>. Like the other two it assigns \<^verbatim>\<open>self.transform_\<close>
  first. Fitting an encoder and freezing \<^verbatim>\<open>rv_discrete\<close> are taken to succeed: what
  scipy checks of the weights differs between its versions and is not represented.
\<close>

definition Categorical_set_transformer ::
  "categorical_dim \<Rightarrow> string \<Rightarrow> error option \<times> categorical_dim" where
  "Categorical_set_transformer self0 transform =
     (let self = self0\<lparr>transform_mode := transform\<rparr> in
      if transform \<notin> set [''identity'', ''onehot'', ''string'', ''normalize'',
                             ''normalize_unbounded'', ''label'']
      then (Some ValueError, self)
      else
        (let self = self\<lparr>transformer := Some
               (if transform = ''onehot'' then CategoricalEncoder (categories self)
                else if transform = ''string'' then StringEncoder (categories self)
                else if transform = ''label'' then LabelEncoder (categories self)
                else if str_contains ''normalize'' transform then
                  Pipeline [LabelEncoder (categories self),
                            Normalize 0 (real (length (categories self)) - 1) True False
                              (Some (length (categories self)))]
                else Identity)\<rparr>
         in if str_contains ''normalize'' transform
            then (None, self\<lparr>rvs_dist := Some (uniform_inclusive 0 1)\<rparr>)
            else (None, self\<lparr>rvs_dist := Some
                    (RvDiscrete [0..<length (categories self)] (prior_weights self))\<rparr>)))"

text \<open>
  \<^verbatim>\<open>Categorical.__init__\<close>. The default prior divides by the number of categories,
  and Python's float division by zero raises \<^verbatim>\<open>ZeroDivisionError\<close>.
\<close>

definition Categorical_init ::
  "pyval list \<Rightarrow> real list option \<Rightarrow> string option \<Rightarrow> pyval \<Rightarrow> error + categorical_dim" where
  "Categorical_init categories_arg prior_arg transform name_arg =
     (case name_setter name_arg of
        Inl e \<Rightarrow> Inl e
      | Inr nm \<Rightarrow>
        (let t = (case transform of None \<Rightarrow> ''onehot'' | Some s \<Rightarrow> s);
             n = length categories_arg
         in case (case prior_arg of
                    None \<Rightarrow> if n = 0 then Inl ZeroDivisionError
                            else Inr (replicate n (1 / real n))
                  | Some p \<Rightarrow> Inr p) of
              Inl e \<Rightarrow> Inl e
            | Inr pr \<Rightarrow>
              (let self = \<lparr>name = nm, transform_mode = t, transformer = None, rvs_dist = None,
                           categories = categories_arg, cat_prior = prior_arg, prior_weights = pr\<rparr>
               in case Categorical_set_transformer self t of
                    (Some e, self') \<Rightarrow> Inl e
                  | (None, self') \<Rightarrow> Inr self')))"

text \<open>\<^verbatim>\<open>Categorical.transformed_size\<close>; the base class's is 1.\<close>

definition Categorical_transformed_size :: "categorical_dim \<Rightarrow> nat" where
  "Categorical_transformed_size self =
     (if transform_mode self = ''onehot'' then
        (let size = length (categories self) in if size \<noteq> 2 then size else 1)
      else 1)"

fun transformed_size :: "dimension \<Rightarrow> nat" where
  "transformed_size (Real d) = 1"
| "transformed_size (Integer d) = 1"
| "transformed_size (Categorical d) = Categorical_transformed_size d"

subsection \<open>Membership and distance\<close>

text \<open>
  \<^verbatim>\<open>__contains__\<close> and \<^verbatim>\<open>distance\<close> of the three variants, on scalar points. The
  numeric variants take numbers, as documented (\<^verbatim>\<open>a : float\<close>, \<^verbatim>\<open>a : int\<close>).
\<close>

definition Real_contains :: "numeric_dim \<Rightarrow> real \<Rightarrow> bool" where
  "Real_contains self point = (low self \<le> point \<and> point \<le> high self)"

definition Real_distance :: "numeric_dim \<Rightarrow> real \<Rightarrow> real \<Rightarrow> error + real" where
  "Real_distance self a b =
     (if \<not> (Real_contains self a \<and> Real_contains self b) then Inl RuntimeError
      else Inr \<bar>a - b\<bar>)"

definition Integer_contains :: "numeric_dim \<Rightarrow> real \<Rightarrow> bool" where
  "Integer_contains self point = (low self \<le> point \<and> point \<le> high self)"

definition Integer_distance :: "numeric_dim \<Rightarrow> real \<Rightarrow> real \<Rightarrow> error + real" where
  "Integer_distance self a b =
     (if \<not> (Integer_contains self a \<and> Integer_contains self b) then Inl RuntimeError
      else Inr \<bar>a - b\<bar>)"

definition Categorical_contains :: "categorical_dim \<Rightarrow> pyval \<Rightarrow> bool" where
  "Categorical_contains self point = py_in point (categories self)"

definition Categorical_distance :: "categorical_dim \<Rightarrow> pyval \<Rightarrow> pyval \<Rightarrow> error + nat" where
  "Categorical_distance self a b =
     (if \<not> (Categorical_contains self a \<and> Categorical_contains self b) then Inl RuntimeError
      else Inr (if \<not> py_eq a b then 1 else 0))"

subsection \<open>Equality of dimensions\<close>

text \<open>
  \<^verbatim>\<open>np.allclose\<close> with its default tolerances: \<open>\<bar>a - b\<bar> \<le> atol + rtol * \<bar>b\<bar>\<close> at
  every position, after broadcasting; two one-dimensional arrays broadcast when their
  lengths agree or one of them has length 1, and raise \<^verbatim>\<open>ValueError\<close> otherwise.
\<close>

definition isclose :: "real \<Rightarrow> real \<Rightarrow> bool" where
  "isclose a b = (\<bar>a - b\<bar> \<le> 1 / 10 ^ 8 + (1 / 10 ^ 5) * \<bar>b\<bar>)"

definition allclose :: "real list \<Rightarrow> real list \<Rightarrow> error + bool" where
  "allclose a b =
     (if length a = length b then Inr (list_all2 isclose a b)
      else if length a = 1 then Inr (list_all (\<lambda>y. isclose (hd a) y) b)
      else if length b = 1 then Inr (list_all (\<lambda>x. isclose x (hd b)) a)
      else Inl ValueError)"

text \<open>Equality of two tuples of categories: the same length and equal elements.\<close>

definition tuple_eq :: "pyval list \<Rightarrow> pyval list \<Rightarrow> bool" where
  "tuple_eq xs ys = list_all2 py_eq xs ys"

text \<open>
  \<^verbatim>\<open>__eq__\<close> of the three variants; \<^verbatim>\<open>type(self) is type(other)\<close> is the comparison
  of the constructors. Python's \<^verbatim>\<open>and\<close> evaluates its right operand only when the
  left one is true.
\<close>

fun Dimension_eq :: "dimension \<Rightarrow> dimension \<Rightarrow> error + bool" where
  "Dimension_eq (Real self) (Real other) =
     Inr (isclose (low self) (low other) \<and> isclose (high self) (high other) \<and>
          prior self = prior other \<and> transform_mode self = transform_mode other)"
| "Dimension_eq (Integer self) (Integer other) =
     Inr (isclose (low self) (low other) \<and> isclose (high self) (high other))"
| "Dimension_eq (Categorical self) (Categorical other) =
     (if \<not> tuple_eq (categories self) (categories other) then Inr False
      else allclose (prior_weights self) (prior_weights other))"
| "Dimension_eq a b = Inr False"

section \<open>Space\<close>

record space =
  dimensions :: "dimension list"

text \<open>A list comprehension whose elements can raise: the first exception ends it.\<close>

fun collect :: "(error + 'a) list \<Rightarrow> error + 'a list" where
  "collect [] = Inr []"
| "collect (r # rs) =
     (case r of
        Inl e \<Rightarrow> Inl e
      | Inr x \<Rightarrow> (case collect rs of Inl e \<Rightarrow> Inl e | Inr xs \<Rightarrow> Inr (x # xs)))"

text \<open>\<^verbatim>\<open>Space.__eq__\<close>: \<^verbatim>\<open>all([a == b for a, b in zip(...)])\<close>.\<close>

definition Space_eq :: "space \<Rightarrow> space \<Rightarrow> error + bool" where
  "Space_eq self other =
     (case collect (map (\<lambda>(a, b). Dimension_eq a b) (zip (dimensions self) (dimensions other))) of
        Inl e \<Rightarrow> Inl e
      | Inr bs \<Rightarrow> Inr (list_all (\<lambda>b. b) bs))"

text \<open>
  \<^verbatim>\<open>Space.__getitem__\<close>. The helper \<^verbatim>\<open>_get\<close> walks the dimensions with a running
  index and returns at the first dimension whose name or index equals the key; \<open>None\<close>
  stands for the pair \<^verbatim>\<open>(None, None)\<close>.
\<close>

fun dim_name :: "dimension \<Rightarrow> pyval" where
  "dim_name (Real d) = (case name d of None \<Rightarrow> PNone | Some s \<Rightarrow> PStr s)"
| "dim_name (Integer d) = (case name d of None \<Rightarrow> PNone | Some s \<Rightarrow> PStr s)"
| "dim_name (Categorical d) = (case name d of None \<Rightarrow> PNone | Some s \<Rightarrow> PStr s)"

fun get_loop :: "nat \<Rightarrow> dimension list \<Rightarrow> pyval \<Rightarrow> (nat \<times> dimension) option" where
  "get_loop index [] dimension_name = None"
| "get_loop index (d # ds) dimension_name =
     (if py_eq dimension_name (dim_name d) then Some (index, d)
      else if py_eq dimension_name (PInt (int index)) then Some (index, d)
      else get_loop (Suc index) ds dimension_name)"

definition get :: "space \<Rightarrow> pyval \<Rightarrow> (nat \<times> dimension) option" where
  "get self dimension_name = get_loop 0 (dimensions self) dimension_name"

datatype getitem_arg = Scalar pyval | Sequence "pyval list"

datatype getitem_result =
  One "(nat \<times> dimension) option" | Many "(nat \<times> dimension) option list"

fun is_str_or_int :: "pyval \<Rightarrow> bool" where
  "is_str_or_int (PStr s) = True"
| "is_str_or_int (PInt i) = True"
| "is_str_or_int (PBool b) = True"
| "is_str_or_int v = False"

fun Space_getitem :: "space \<Rightarrow> getitem_arg \<Rightarrow> error + getitem_result" where
  "Space_getitem self (Scalar k) =
     (if is_str_or_int k then Inr (One (get self k)) else Inl ValueError)"
| "Space_getitem self (Sequence ks) = Inr (Many (map (get self) ks))"

section \<open>Dimension descriptions\<close>

text \<open>
  What \<^verbatim>\<open>check_dimension\<close> is given: a \<^verbatim>\<open>Dimension\<close> instance, a list, tuple or array
  of values, or anything else.
\<close>

datatype description = Instance dimension | Seq "pyval list" | Other

definition uniform_priors :: "pyval list" where
  "uniform_priors = [PStr ''uniform'', PStr ''log-uniform'']"

definition mk_Categorical :: "pyval list \<Rightarrow> string option \<Rightarrow> error + dimension" where
  "mk_Categorical d transform =
     (case Categorical_init d None transform PNone of
        Inl e \<Rightarrow> Inl e | Inr c \<Rightarrow> Inr (Categorical c))"

definition mk_Integer ::
  "pyval \<Rightarrow> pyval \<Rightarrow> pyval \<Rightarrow> pyval \<Rightarrow> string option \<Rightarrow> error + dimension" where
  "mk_Integer lo hi pr b transform =
     (case Integer_init lo hi pr b transform PNone (DType ''np.int64'') of
        Inl e \<Rightarrow> Inl e | Inr c \<Rightarrow> Inr (Integer c))"

definition mk_Real ::
  "pyval \<Rightarrow> pyval \<Rightarrow> pyval \<Rightarrow> pyval \<Rightarrow> string option \<Rightarrow> error + dimension" where
  "mk_Real lo hi pr b transform =
     (case Real_init lo hi pr b transform PNone (DType ''float'') of
        Inl e \<Rightarrow> Inl e | Inr c \<Rightarrow> Inr (Real c))"

text \<open>
  \<^verbatim>\<open>check_dimension\<close>. The constructors are called with the elements of the description
  as positional arguments (low, high, prior, base) and the defaults
  \<^verbatim>\<open>prior="uniform"\<close>, \<^verbatim>\<open>base=10\<close> for the rest.
\<close>

definition check_dimension :: "description \<Rightarrow> string option \<Rightarrow> error + dimension" where
  "check_dimension dimension transform =
     (case dimension of
        Instance d \<Rightarrow> Inr d
      | Other \<Rightarrow> Inl ValueError
      | Seq d \<Rightarrow>
          if length d = 1 then mk_Categorical d transform
          else if length d = 2 then
            (if list_ex is_str_or_bool d then mk_Categorical d transform
             else if list_all is_Integral d then
               mk_Integer (d ! 0) (d ! 1) (PStr ''uniform'') (PInt 10) transform
             else if list_ex is_Real d then
               mk_Real (d ! 0) (d ! 1) (PStr ''uniform'') (PInt 10) transform
             else Inl ValueError)
          else if length d = 3 then
            (if list_ex is_int (take 2 d) \<and> py_in (d ! 2) uniform_priors then
               mk_Integer (d ! 0) (d ! 1) (d ! 2) (PInt 10) transform
             else if list_ex is_float_or_int (take 2 d) \<and> py_in (d ! 2) uniform_priors then
               mk_Real (d ! 0) (d ! 1) (d ! 2) (PInt 10) transform
             else mk_Categorical d transform)
          else if length d = 4 \<and> list_ex is_int (take 2 d) \<and>
                  py_eq (d ! 2) (PStr ''log-uniform'') \<and> is_int (d ! 3) then
            mk_Integer (d ! 0) (d ! 1) (d ! 2) (d ! 3) transform
          else if length d = 4 \<and> list_ex is_float_or_int (take 2 d) \<and>
                  py_eq (d ! 2) (PStr ''log-uniform'') \<and> is_int (d ! 3) then
            mk_Real (d ! 0) (d ! 1) (d ! 2) (d ! 3) transform
          else if length d > 3 then mk_Categorical d transform
          else Inl ValueError)"

section \<open>Dispatch and sample dimensions\<close>

text \<open>A call \<^verbatim>\<open>dim.set_transformer(transform)\<close> on a dimension of any variant.\<close>

fun Dimension_set_transformer :: "dimension \<Rightarrow> string \<Rightarrow> error option \<times> dimension" where
  "Dimension_set_transformer (Real d) t =
     (case Real_set_transformer d t of (e, d') \<Rightarrow> (e, Real d'))"
| "Dimension_set_transformer (Integer d) t =
     (case Integer_set_transformer d t of (e, d') \<Rightarrow> (e, Integer d'))"
| "Dimension_set_transformer (Categorical d) t =
     (case Categorical_set_transformer d t of (e, d') \<Rightarrow> (e, Categorical d'))"

text \<open>
  The dimensions that \<^verbatim>\<open>Real(0, 1)\<close>, \<^verbatim>\<open>Integer(0, 10)\<close> and
  \<^verbatim>\<open>Categorical(["a", "b"])\<close> construct, used as concrete inputs below.
\<close>

definition Real_0_1 :: numeric_dim where
  "Real_0_1 =
     \<lparr>name = None, transform_mode = ''identity'', transformer = Some Identity,
      rvs_dist = Some (UniformInclusive 0 1), low = 0, high = 1, prior = ''uniform'',
      base = 10, log_base = 1, dtype = DType ''float''\<rparr>"

definition Integer_0_10 :: numeric_dim where
  "Integer_0_10 =
     \<lparr>name = None, transform_mode = ''identity'', transformer = Some Identity,
      rvs_dist = Some (Randint 0 11), low = 0, high = 10, prior = ''uniform'',
      base = 10, log_base = 1, dtype = DType ''np.int64''\<rparr>"

definition Categorical_a_b :: categorical_dim where
  "Categorical_a_b =
     \<lparr>name = None, transform_mode = ''onehot'',
      transformer = Some (CategoricalEncoder [PStr ''a'', PStr ''b'']),
      rvs_dist = Some (RvDiscrete [0, 1] [1 / 2, 1 / 2]),
      categories = [PStr ''a'', PStr ''b''], cat_prior = None,
      prior_weights = [1 / 2, 1 / 2]\<rparr>"

section \<open>Arrays\<close>

text \<open>
  What a transformed column holds: a Python value, or the string form \<^verbatim>\<open>str(v)\<close> of a
  category \<open>v\<close> that is not itself a string.
\<close>

datatype cell = Val pyval | StrForm pyval

fun cell_num :: "cell \<Rightarrow> real option" where
  "cell_num (Val v) = py_num v"
| "cell_num (StrForm v) = None"

text \<open>
  A sequence of shape \<open>(n,)\<close>, a list or a one-dimensional array, and an array of shape
  \<open>(n, k)\<close> as its list of rows.
\<close>

datatype arr = Arr1 "cell list" | Arr2 "cell list list"

definition map_cells :: "(cell \<Rightarrow> error + cell) \<Rightarrow> cell list \<Rightarrow> error + cell list" where
  "map_cells f xs = collect (map f xs)"

definition map_arr :: "(cell \<Rightarrow> error + cell) \<Rightarrow> arr \<Rightarrow> error + arr" where
  "map_arr f a =
     (case a of
        Arr1 xs \<Rightarrow> (case map_cells f xs of Inl e \<Rightarrow> Inl e | Inr ys \<Rightarrow> Inr (Arr1 ys))
      | Arr2 rows \<Rightarrow>
          (case collect (map (map_cells f) rows) of Inl e \<Rightarrow> Inl e | Inr rs \<Rightarrow> Inr (Arr2 rs)))"

text \<open>A numeric operation applied to a cell: a cell that is not a number raises.\<close>

definition on_num :: "(real \<Rightarrow> cell) \<Rightarrow> cell \<Rightarrow> error + cell" where
  "on_num f c = (case cell_num c of None \<Rightarrow> Inl TypeError | Some x \<Rightarrow> Inr (f x))"

definition cell_nums :: "cell list \<Rightarrow> error + real list" where
  "cell_nums xs =
     collect (map (\<lambda>c. case cell_num c of None \<Rightarrow> Inl TypeError | Some x \<Rightarrow> Inr x) xs)"

text \<open>\<^verbatim>\<open>np.round\<close>: to the nearest integer, a tie to the even one.\<close>

definition np_round :: "real \<Rightarrow> int" where
  "np_round x =
     (let f = \<lfloor>x\<rfloor>; d = x - of_int f in
      if d < 1 / 2 then f else if 1 / 2 < d then f + 1 else if even f then f else f + 1)"

text \<open>\<^verbatim>\<open>np.clip(x, low, high)\<close> is \<^verbatim>\<open>minimum(maximum(x, low), high)\<close>.\<close>

definition np_clip :: "real \<Rightarrow> real \<Rightarrow> real \<Rightarrow> real" where
  "np_clip x lo hi = min (max x lo) hi"

section \<open>The width handed to the uniform generator\<close>

text \<open>
  \<^verbatim>\<open>_uniform_inclusive\<close> hands scipy the width \<^verbatim>\<open>np.nextafter(scale, scale + 1.)\<close>, which
  is computed in binary64. A normal binary64 number has 53 significant bits, so the unit
  in the last place of \<open>x\<close> is \<open>2\<close> to the power \<open>\<lfloor>log\<^sub>2 \<bar>x\<bar>\<rfloor> - 52\<close>; \<open>fl\<close> rounds a real
  number to the nearest binary64 number, a tie to the even one, and \<open>fadd\<close> is the
  floating-point sum. Subnormal numbers, overflow and NaN are not represented.
\<close>

definition ulp :: "real \<Rightarrow> real" where
  "ulp x = 2 powr of_int (\<lfloor>log 2 \<bar>x\<bar>\<rfloor> - 52)"

definition fl :: "real \<Rightarrow> real" where
  "fl x = (if x = 0 then 0 else of_int (np_round (x / ulp x)) * ulp x)"

definition fadd :: "real \<Rightarrow> real \<Rightarrow> real" where
  "fadd a b = fl (a + b)"

text \<open>
  \<^verbatim>\<open>np.nextafter(x, y)\<close> for a positive binary64 number \<open>x\<close>: \<open>y\<close> itself when the two are
  equal, otherwise the neighbour of \<open>x\<close> on the side of \<open>y\<close>.
\<close>

definition nextafter :: "real \<Rightarrow> real \<Rightarrow> real" where
  "nextafter x y =
     (if x = y then y
      else if x < y then x + ulp x
      else if x = 2 powr of_int \<lfloor>log 2 x\<rfloor> then x - ulp x / 2
      else x - ulp x)"

text \<open>The \<^verbatim>\<open>scale\<close> that the frozen uniform distribution was given.\<close>

fun generator_scale :: "distribution \<Rightarrow> real option" where
  "generator_scale (UniformInclusive loc scale) = Some (nextafter scale (fadd scale 1))"
| "generator_scale d = None"

section \<open>The transform primitives\<close>

text \<open>
  Modelled from the spec: \<^verbatim>\<open>skopt/space/transformers.py\<close> is not among the sources, so
  the primitives follow section 4.1 of the specification. Arithmetic is over the real
  numbers.
\<close>

text \<open>
  Modelled from the spec: Normalize, \<open>transform(x) = (x - low) / (high - low)\<close>.
\<close>

definition Normalize_transform :: "real \<Rightarrow> real \<Rightarrow> real \<Rightarrow> cell" where
  "Normalize_transform lo hi x = Val (PFloat ((x - lo) / (hi - lo)))"

text \<open>
  Modelled from the spec: Normalize, \<open>inverse_transform(y) = low + y * (high - low)\<close>,
  after clamping \<open>y\<close> into [0, 1] unless \<open>unbounded\<close>; with \<open>is_int\<close> the result is rounded
  to the nearest integer, and kept within the \<open>n_categories\<close> labels when that is given.
\<close>

definition Normalize_inverse ::
  "real \<Rightarrow> real \<Rightarrow> bool \<Rightarrow> bool \<Rightarrow> nat option \<Rightarrow> real \<Rightarrow> cell" where
  "Normalize_inverse lo hi isint unbounded n_categories y =
     (let y' = (if unbounded then y else np_clip y 0 1);
          x = lo + y' * (hi - lo)
      in if isint then
           Val (PInt (case n_categories of
                        None \<Rightarrow> np_round x
                      | Some n \<Rightarrow> min (max (np_round x) 0) (int n - 1)))
         else Val (PFloat x))"

text \<open>
  Modelled from the spec: LogN, \<open>transform(x) = log_base(x)\<close> and
  \<open>inverse_transform(y) = base^y\<close>. The transform requires a positive input; on any other
  input the value of \<open>log\<close> is not specified.
\<close>

definition LogN_transform :: "real \<Rightarrow> real \<Rightarrow> cell" where
  "LogN_transform b x = Val (PFloat (log b x))"

definition LogN_inverse :: "real \<Rightarrow> real \<Rightarrow> cell" where
  "LogN_inverse b y = Val (PFloat (b powr y))"

text \<open>
  Modelled from the spec: the zero-based position of a value among the fitted categories,
  the first category that equals it, as the label and one-hot encodings use it.
\<close>

fun index_of :: "pyval \<Rightarrow> pyval list \<Rightarrow> nat option" where
  "index_of v [] = None"
| "index_of v (c # cs) =
     (if py_eq v c then Some 0 else map_option Suc (index_of v cs))"

text \<open>
  Modelled from the spec: the label of a cell; a cell that holds no fitted category is
  an error.
\<close>

definition label_of :: "pyval list \<Rightarrow> cell \<Rightarrow> error + nat" where
  "label_of cats c =
     (case c of
        StrForm v \<Rightarrow> Inl ValueError
      | Val v \<Rightarrow> (case index_of v cats of None \<Rightarrow> Inl ValueError | Some i \<Rightarrow> Inr i))"

text \<open>
  Modelled from the spec: LabelEncoder, the zero-based position of the category, and
  the exact lookup back; a label outside the fitted categories is an error.
\<close>

definition LabelEncoder_transform :: "pyval list \<Rightarrow> cell \<Rightarrow> error + cell" where
  "LabelEncoder_transform cats c =
     (case label_of cats c of Inl e \<Rightarrow> Inl e | Inr i \<Rightarrow> Inr (Val (PInt (int i))))"

text \<open>
  Modelled from the spec: the category at a label, for the lookup back; a number that
  is not the label of a fitted category is an error.
\<close>

definition category_at :: "pyval list \<Rightarrow> real \<Rightarrow> error + cell" where
  "category_at cats x =
     (if x = of_int \<lfloor>x\<rfloor> \<and> 0 \<le> x \<and> nat \<lfloor>x\<rfloor> < length cats
      then Inr (Val (cats ! nat \<lfloor>x\<rfloor>)) else Inl ValueError)"

text \<open>Modelled from the spec: LabelEncoder, the lookup back from a label.\<close>

definition LabelEncoder_inverse :: "pyval list \<Rightarrow> cell \<Rightarrow> error + cell" where
  "LabelEncoder_inverse cats c =
     (case cell_num c of None \<Rightarrow> Inl ValueError | Some x \<Rightarrow> category_at cats x)"

text \<open>
  Modelled from the spec: the string form of a value, by kind. Two values are rendered
  as the same string when they are of one kind and equal: a Python and a numpy boolean,
  integer or float render alike, and an integer never renders as a float does. The form of
  a value that is not a string is kept apart from every string, so that the lookup back
  is exact, as the spec has it.
\<close>

datatype form = FNone | FBool bool | FInt int | FFloat real | FStr string

fun str_form :: "pyval \<Rightarrow> form" where
  "str_form PNone = FNone"
| "str_form (PBool b) = FBool b"
| "str_form (PInt i) = FInt i"
| "str_form (PFloat x) = FFloat x"
| "str_form (PStr s) = FStr s"
| "str_form (NpBool b) = FBool b"
| "str_form (NpInt i) = FInt i"
| "str_form (NpFloat x) = FFloat x"

text \<open>
  Modelled from the spec: the position of the first fitted category with the string form
  of a value.
\<close>

fun form_index :: "pyval \<Rightarrow> pyval list \<Rightarrow> nat option" where
  "form_index v [] = None"
| "form_index v (c # cs) =
     (if str_form c = str_form v then Some 0 else map_option Suc (form_index v cs))"

text \<open>
  Modelled from the spec: StringEncoder, the category rendered as its string form, and
  the exact lookup back to the original category; a string that is the form of no fitted
  category is an error. A string is its own string form.
\<close>

fun StringEncoder_transform :: "cell \<Rightarrow> error + cell" where
  "StringEncoder_transform (Val (PStr s)) = Inr (Val (PStr s))"
| "StringEncoder_transform (Val v) = Inr (StrForm v)"
| "StringEncoder_transform (StrForm v) = Inr (StrForm v)"

text \<open>
  Modelled from the spec: StringEncoder, the lookup back from a string form to the
  fitted category that has it.
\<close>

definition lookup_category :: "pyval list \<Rightarrow> pyval \<Rightarrow> error + cell" where
  "lookup_category cats v =
     (case form_index v cats of None \<Rightarrow> Inl ValueError | Some i \<Rightarrow> Inr (Val (cats ! i)))"

fun StringEncoder_inverse :: "pyval list \<Rightarrow> cell \<Rightarrow> error + cell" where
  "StringEncoder_inverse cats (Val (PStr s)) = lookup_category cats (PStr s)"
| "StringEncoder_inverse cats (Val v) = Inl ValueError"
| "StringEncoder_inverse cats (StrForm v) =
     (case v of PStr s \<Rightarrow> Inl ValueError | _ \<Rightarrow> lookup_category cats v)"

text \<open>
  Modelled from the spec: CategoricalEncoder, a one-hot vector as wide as there are
  categories, collapsed to a single value, the label, when there are exactly two.
\<close>

definition onehot :: "nat \<Rightarrow> nat \<Rightarrow> real list" where
  "onehot n i = map (\<lambda>j. if j = i then 1 else 0) [0..<n]"

definition onehot_row :: "pyval list \<Rightarrow> cell \<Rightarrow> error + cell list" where
  "onehot_row cats c =
     (case label_of cats c of
        Inl e \<Rightarrow> Inl e
      | Inr i \<Rightarrow> Inr (map (\<lambda>x. Val (PFloat x)) (onehot (length cats) i)))"

definition CategoricalEncoder_transform :: "pyval list \<Rightarrow> arr \<Rightarrow> error + arr" where
  "CategoricalEncoder_transform cats a =
     (case a of
        Arr2 rows \<Rightarrow> Inl ValueError
      | Arr1 xs \<Rightarrow>
          if length cats = 2 then map_arr (LabelEncoder_transform cats) (Arr1 xs)
          else (case collect (map (onehot_row cats) xs) of
                  Inl e \<Rightarrow> Inl e | Inr rows \<Rightarrow> Inr (Arr2 rows)))"

text \<open>
  Modelled from the spec: CategoricalEncoder, the lookup back. A row is the one-hot vector
  of exactly one fitted category, or is an error; with exactly two categories the single
  value is the label.
\<close>

fun first_one :: "real list \<Rightarrow> nat option" where
  "first_one [] = None"
| "first_one (x # xs) = (if x = 1 then Some 0 else map_option Suc (first_one xs))"

definition decode_row :: "pyval list \<Rightarrow> cell list \<Rightarrow> error + cell" where
  "decode_row cats row =
     (case cell_nums row of
        Inl e \<Rightarrow> Inl e
      | Inr xs \<Rightarrow>
          (case first_one xs of
             None \<Rightarrow> Inl ValueError
           | Some i \<Rightarrow>
               if xs = onehot (length cats) i \<and> i < length cats
               then Inr (Val (cats ! i)) else Inl ValueError))"

definition CategoricalEncoder_inverse :: "pyval list \<Rightarrow> arr \<Rightarrow> error + arr" where
  "CategoricalEncoder_inverse cats a =
     (if length cats = 2 then
        (case a of
           Arr1 xs \<Rightarrow> map_arr (LabelEncoder_inverse cats) (Arr1 xs)
         | Arr2 rows \<Rightarrow> Inl ValueError)
      else
        (case collect (map (decode_row cats)
                 (case a of Arr1 xs \<Rightarrow> map (\<lambda>x. [x]) xs | Arr2 rows \<Rightarrow> rows)) of
           Inl e \<Rightarrow> Inl e
         | Inr ys \<Rightarrow> Inr (Arr1 ys)))"

text \<open>
  Modelled from the spec: \<open>transform\<close> of a transformer; a Pipeline threads the values
  through its stages in order.
\<close>

fun transformer_transform :: "transformer \<Rightarrow> arr \<Rightarrow> error + arr"
  and pipeline_transform :: "transformer list \<Rightarrow> arr \<Rightarrow> error + arr" where
  "transformer_transform Identity X = Inr X"
| "transformer_transform (LogN b) X = map_arr (on_num (LogN_transform b)) X"
| "transformer_transform (Normalize lo hi isint unbounded n_categories) X =
     map_arr (on_num (Normalize_transform lo hi)) X"
| "transformer_transform (CategoricalEncoder cats) X = CategoricalEncoder_transform cats X"
| "transformer_transform (StringEncoder cats) X = map_arr StringEncoder_transform X"
| "transformer_transform (LabelEncoder cats) X = map_arr (LabelEncoder_transform cats) X"
| "transformer_transform (Pipeline ts) X = pipeline_transform ts X"
| "pipeline_transform [] X = Inr X"
| "pipeline_transform (t # ts) X =
     (case transformer_transform t X of
        Inl e \<Rightarrow> Inl e
      | Inr Y \<Rightarrow> pipeline_transform ts Y)"

text \<open>
  Modelled from the spec: \<open>inverse_transform\<close> of a transformer, and of a Pipeline, whose
  last stage is inverted first.
\<close>

fun transformer_inverse :: "transformer \<Rightarrow> arr \<Rightarrow> error + arr"
  and pipeline_inverse :: "transformer list \<Rightarrow> arr \<Rightarrow> error + arr" where
  "transformer_inverse Identity Xt = Inr Xt"
| "transformer_inverse (LogN b) Xt = map_arr (on_num (LogN_inverse b)) Xt"
| "transformer_inverse (Normalize lo hi isint unbounded n_categories) Xt =
     map_arr (on_num (Normalize_inverse lo hi isint unbounded n_categories)) Xt"
| "transformer_inverse (CategoricalEncoder cats) Xt = CategoricalEncoder_inverse cats Xt"
| "transformer_inverse (StringEncoder cats) Xt = map_arr (StringEncoder_inverse cats) Xt"
| "transformer_inverse (LabelEncoder cats) Xt = map_arr (LabelEncoder_inverse cats) Xt"
| "transformer_inverse (Pipeline ts) Xt = pipeline_inverse ts Xt"
| "pipeline_inverse [] Xt = Inr Xt"
| "pipeline_inverse (t # ts) Xt =
     (case pipeline_inverse ts Xt of
        Inl e \<Rightarrow> Inl e
      | Inr Y \<Rightarrow> transformer_inverse t Y)"

section \<open>Transforms of a dimension\<close>

fun dim_transformer :: "dimension \<Rightarrow> transformer option" where
  "dim_transformer (Real d) = transformer d"
| "dim_transformer (Integer d) = transformer d"
| "dim_transformer (Categorical d) = transformer d"

text \<open>
  \<^verbatim>\<open>Dimension.transform\<close> and \<^verbatim>\<open>Dimension.inverse_transform\<close> of the base class: the
  call goes to \<^verbatim>\<open>self.transformer\<close>, which is \<^verbatim>\<open>None\<close> until set_transformer has run.
\<close>

definition Dimension_transform :: "dimension \<Rightarrow> arr \<Rightarrow> error + arr" where
  "Dimension_transform d X =
     (case dim_transformer d of
        None \<Rightarrow> Inl AttributeError
      | Some t \<Rightarrow> transformer_transform t X)"






section \<open>Space.transform\<close>

definition n_dims :: "space \<Rightarrow> nat" where
  "n_dims self = length (dimensions self)"

definition transformed_n_dims :: "space \<Rightarrow> nat" where
  "transformed_n_dims self = sum_list (map transformed_size (dimensions self))"

text \<open>
  \<^verbatim>\<open>__contains__\<close> of a dimension on a scalar point; the comparison of a numeric bound
  with a value that is not a number raises \<^verbatim>\<open>TypeError\<close>.
\<close>

fun Dimension_contains :: "dimension \<Rightarrow> pyval \<Rightarrow> error + bool" where
  "Dimension_contains (Real d) v =
     (case py_num v of None \<Rightarrow> Inl TypeError | Some x \<Rightarrow> Inr (Real_contains d x))"
| "Dimension_contains (Integer d) v =
     (case py_num v of None \<Rightarrow> Inl TypeError | Some x \<Rightarrow> Inr (Integer_contains d x))"
| "Dimension_contains (Categorical d) v = Inr (Categorical_contains d v)"

text \<open>\<^verbatim>\<open>Space.__contains__\<close>: the loop over \<^verbatim>\<open>zip(point, self.dimensions)\<close>.\<close>

fun contains_loop :: "(pyval \<times> dimension) list \<Rightarrow> error + bool" where
  "contains_loop [] = Inr True"
| "contains_loop ((component, d) # rest) =
     (case Dimension_contains d component of
        Inl e \<Rightarrow> Inl e
      | Inr b \<Rightarrow> if \<not> b then Inr False else contains_loop rest)"

definition Space_contains :: "space \<Rightarrow> pyval list \<Rightarrow> error + bool" where
  "Space_contains self point = contains_loop (zip point (dimensions self))"

text \<open>
  Column \<open>j\<close> of the rows \<open>X\<close>, as \<^verbatim>\<open>columns[j].append(X[i][j])\<close> builds it; a row shorter
  than the number of dimensions raises \<^verbatim>\<open>IndexError\<close>.
\<close>

definition column :: "pyval list list \<Rightarrow> nat \<Rightarrow> error + cell list" where
  "column X j =
     collect (map (\<lambda>row. if j < length row then Inr (Val (row ! j)) else Inl IndexError) X)"

text \<open>
  \<^verbatim>\<open>np.asarray(c).reshape((n, -1))\<close>: the elements in row-major order, cut into \<open>n\<close> rows.
  numpy refuses when \<open>n\<close> is 0, since the other length cannot be inferred, and when \<open>n\<close>
  does not divide the number of elements.
\<close>

definition reshape_rows :: "nat \<Rightarrow> arr \<Rightarrow> error + cell list list" where
  "reshape_rows n a =
     (let flat = (case a of Arr1 xs \<Rightarrow> xs | Arr2 rows \<Rightarrow> concat rows);
          k = length flat div n
      in if n = 0 \<or> length flat mod n \<noteq> 0 then Inl ValueError
         else Inr (map (\<lambda>i. take k (drop (i * k) flat)) [0..<n]))"

text \<open>
  \<^verbatim>\<open>np.hstack\<close> of two-dimensional arrays: the rows side by side. It refuses an empty
  list of arrays, and arrays with different numbers of rows. The common dtype that numpy
  gives the result is not represented.
\<close>

definition hstack :: "cell list list list \<Rightarrow> error + cell list list" where
  "hstack blocks =
     (if blocks = [] then Inl ValueError
      else if list_ex (\<lambda>b. length b \<noteq> length (hd blocks)) blocks then Inl ValueError
      else Inr (map (\<lambda>i. concat (map (\<lambda>b. b ! i) blocks)) [0..<length (hd blocks)]))"

text \<open>\<^verbatim>\<open>Space.transform\<close>.\<close>

definition Space_transform :: "space \<Rightarrow> pyval list list \<Rightarrow> error + cell list list" where
  "Space_transform self X =
     (case collect (map (column X) [0..<n_dims self]) of
        Inl e \<Rightarrow> Inl e
      | Inr columns \<Rightarrow>
          (case collect (map (\<lambda>(d, c). Dimension_transform d (Arr1 c))
                          (zip (dimensions self) columns)) of
             Inl e \<Rightarrow> Inl e
           | Inr transformed \<Rightarrow>
               (case collect (map (reshape_rows (length X)) transformed) of
                  Inl e \<Rightarrow> Inl e
                | Inr blocks \<Rightarrow> hstack blocks)))"

section \<open>Notions used to state the properties\<close>





text \<open>The fitted category that a value equals: the first one, in category order.\<close>

definition fitted :: "pyval list \<Rightarrow> pyval \<Rightarrow> pyval" where
  "fitted cats v = (case index_of v cats of None \<Rightarrow> v | Some i \<Rightarrow> cats ! i)"


text \<open>The cell that StringEncoder makes of a category.\<close>

definition str_cell :: "pyval \<Rightarrow> cell" where
  "str_cell v = (case v of PStr s \<Rightarrow> Val (PStr s) | _ \<Rightarrow> StrForm v)"

text \<open>
  A transformed column for \<open>n\<close> samples, \<open>k\<close> wide: one cell per sample when \<open>k\<close> is 1,
  or \<open>n\<close> rows of \<open>k\<close> cells.
\<close>

definition arr_shape :: "nat \<Rightarrow> nat \<Rightarrow> arr \<Rightarrow> bool" where
  "arr_shape n k a =
     (case a of
        Arr1 xs \<Rightarrow> length xs = n \<and> k = 1
      | Arr2 rows \<Rightarrow> length rows = n \<and> list_all (\<lambda>r. length r = k) rows)"



text \<open>
  Two more sample dimensions: \<^verbatim>\<open>Categorical(["x", "y", "z"])\<close>, and
  \<^verbatim>\<open>Real(-2, 2, prior="log-uniform")\<close>, whose constructor does not look at the sign of the
  bounds.
\<close>

definition Categorical_x_y_z :: categorical_dim where
  "Categorical_x_y_z =
     \<lparr>name = None, transform_mode = ''onehot'',
      transformer = Some (CategoricalEncoder [PStr ''x'', PStr ''y'', PStr ''z'']),
      rvs_dist = Some (RvDiscrete [0, 1, 2] [1 / 3, 1 / 3, 1 / 3]),
      categories = [PStr ''x'', PStr ''y'', PStr ''z''], cat_prior = None,
      prior_weights = [1 / 3, 1 / 3, 1 / 3]\<rparr>"


text \<open>
  \<^verbatim>\<open>Real(0, 1.00001001005)\<close>, whose upper bound is close to 1 in the sense of
  \<^verbatim>\<open>np.allclose\<close> in one direction only.
\<close>

definition Real_0_1_wider :: numeric_dim where
  "Real_0_1_wider =
     \<lparr>name = None, transform_mode = ''identity'', transformer = Some Identity,
      rvs_dist = Some (UniformInclusive 0 (100001001005 / 10 ^ 11)),
      low = 0, high = 100001001005 / 10 ^ 11, prior = ''uniform'',
      base = 10, log_base = 1, dtype = DType ''float''\<rparr>"


section \<open>The sample dimensions are what the constructors build\<close>

lemma Real_0_1_constructed:
  "Real_init (PInt 0) (PInt 1) (PStr ''uniform'') (PInt 10) None PNone (DType ''float'')
     = Inr Real_0_1"
  by (simp add: Real_init_def Real_dtype_ok_def Real_set_transformer_def Let_def
      uniform_inclusive_def Real_0_1_def)

lemma Integer_0_10_constructed:
  "Integer_init (PInt 0) (PInt 10) (PStr ''uniform'') (PInt 10) None PNone (DType ''np.int64'')
     = Inr Integer_0_10"
  by (simp add: Integer_init_def Integer_dtype_ok_def Integer_set_transformer_def Let_def
      Integer_0_10_def)

lemma Categorical_a_b_constructed:
  "Categorical_init [PStr ''a'', PStr ''b''] None None PNone = Inr Categorical_a_b"
  by (simp add: Categorical_init_def Categorical_set_transformer_def Let_def
      uniform_inclusive_def Categorical_a_b_def numeral_2_eq_2)

lemma Categorical_x_y_z_constructed:
  "Categorical_init [PStr ''x'', PStr ''y'', PStr ''z''] None None PNone = Inr Categorical_x_y_z"
  by (simp add: Categorical_init_def Categorical_set_transformer_def Let_def
      uniform_inclusive_def Categorical_x_y_z_def upt_rec)

section \<open>Categorical.transformed_size\<close>

text \<open>
  C6: a Categorical dimension in mode onehot has transformed_size equal to the number of
  its categories, except that it is 1 when there are exactly two; in every other mode
  (identity, string, label, normalize, normalize_unbounded) it is 1.
\<close>

theorem Categorical_transformed_size_onehot:
  "(transform_mode d = ''onehot'' \<longrightarrow>
      Categorical_transformed_size d =
        (if length (categories d) = 2 then 1 else length (categories d)))
   \<and> (transform_mode d \<in> set [''identity'', ''string'', ''label'', ''normalize'',
                            ''normalize_unbounded''] \<longrightarrow>
      Categorical_transformed_size d = 1)
   \<and> (transform_mode d \<noteq> ''onehot'' \<longrightarrow> Categorical_transformed_size d = 1)"
  by (auto simp: Categorical_transformed_size_def Let_def)

theorem Categorical_transformed_size_onehot_witness:
  "Categorical_transformed_size Categorical_a_b = 1
   \<and> Categorical_transformed_size
        (Categorical_a_b\<lparr>categories := [PStr ''a'', PStr ''b'', PStr ''c'']\<rparr>) = 3
   \<and> Categorical_transformed_size (Categorical_a_b\<lparr>transform_mode := ''label''\<rparr>) = 1"
  using Categorical_transformed_size_onehot [of Categorical_a_b]
    Categorical_transformed_size_onehot
      [of "Categorical_a_b\<lparr>categories := [PStr ''a'', PStr ''b'', PStr ''c'']\<rparr>"]
    Categorical_transformed_size_onehot [of "Categorical_a_b\<lparr>transform_mode := ''label''\<rparr>"]
  by (simp add: Categorical_a_b_def)

section \<open>Constructing a Categorical without categories\<close>

text \<open>
  C10: Categorical(categories) with an empty sequence of categories and no prior raises
  ZeroDivisionError, from the default weights 1/len(categories), and not a validation
  error; so no Categorical with zero categories and the default prior is ever constructed.
\<close>

theorem Categorical_init_empty_raises:
  "(\<forall>n. name_setter nm = Inr n \<longrightarrow>
       Categorical_init [] None transform nm = Inl ZeroDivisionError)
   \<and> (\<forall>d. Categorical_init [] None transform nm \<noteq> Inr d)
   \<and> (\<forall>d. Categorical_init cats None transform nm = Inr d \<longrightarrow> cats \<noteq> [])"
  by (auto simp: Categorical_init_def split: sum.splits)

theorem Categorical_init_empty_raises_witness:
  "name_setter PNone = Inr None
   \<and> Categorical_init [] None None PNone = Inl ZeroDivisionError
   \<and> Categorical_init [PStr ''a'', PStr ''b''] None None PNone = Inr Categorical_a_b
   \<and> [PStr ''a'', PStr ''b''] \<noteq> []"
  using Categorical_init_empty_raises [of PNone None "[PStr ''a'', PStr ''b'']"]
    Categorical_a_b_constructed
  by simp

section \<open>set_transformer changes the transform only\<close>

lemma Real_set_transformer_frame:
  "snd (Real_set_transformer r t) =
     r\<lparr>transform_mode := t, transformer := transformer (snd (Real_set_transformer r t)),
       rvs_dist := rvs_dist (snd (Real_set_transformer r t))\<rparr>"
  by (simp add: Real_set_transformer_def Let_def)

lemma Integer_set_transformer_frame:
  "snd (Integer_set_transformer r t) =
     r\<lparr>transform_mode := t, transformer := transformer (snd (Integer_set_transformer r t)),
       rvs_dist := rvs_dist (snd (Integer_set_transformer r t))\<rparr>"
  by (simp add: Integer_set_transformer_def Let_def)

lemma Categorical_set_transformer_frame:
  "snd (Categorical_set_transformer r t) =
     r\<lparr>transform_mode := t, transformer := transformer (snd (Categorical_set_transformer r t)),
       rvs_dist := rvs_dist (snd (Categorical_set_transformer r t))\<rparr>"
  by (simp add: Categorical_set_transformer_def Let_def)

text \<open>
  C7: after any call of set_transformer on a dimension, whether it returns or raises on
  an unrecognised mode, low, high and categories are what they were; the dimension differs
  from the one before at most in its transform mode, its transformer and its sampling
  distribution.
\<close>

theorem set_transformer_frame:
  "(Real_set_transformer r t = (e1, r') \<longrightarrow>
      low r' = low r \<and> high r' = high r \<and>
      r' = r\<lparr>transform_mode := t, transformer := transformer r', rvs_dist := rvs_dist r'\<rparr>)
   \<and> (Integer_set_transformer n t = (e2, n') \<longrightarrow>
      low n' = low n \<and> high n' = high n \<and>
      n' = n\<lparr>transform_mode := t, transformer := transformer n', rvs_dist := rvs_dist n'\<rparr>)
   \<and> (Categorical_set_transformer c t = (e3, c') \<longrightarrow>
      categories c' = categories c \<and>
      c' = c\<lparr>transform_mode := t, transformer := transformer c', rvs_dist := rvs_dist c'\<rparr>)"
proof (intro conjI impI)
  assume h: "Real_set_transformer r t = (e1, r')"
  have f: "r' = r\<lparr>transform_mode := t, transformer := transformer r', rvs_dist := rvs_dist r'\<rparr>"
    using Real_set_transformer_frame [of r t] h by simp
  show "r' = r\<lparr>transform_mode := t, transformer := transformer r', rvs_dist := rvs_dist r'\<rparr>"
    by (rule f)
  show "low r' = low r" by (subst f) simp
  show "high r' = high r" by (subst f) simp
next
  assume h: "Integer_set_transformer n t = (e2, n')"
  have f: "n' = n\<lparr>transform_mode := t, transformer := transformer n', rvs_dist := rvs_dist n'\<rparr>"
    using Integer_set_transformer_frame [of n t] h by simp
  show "n' = n\<lparr>transform_mode := t, transformer := transformer n', rvs_dist := rvs_dist n'\<rparr>"
    by (rule f)
  show "low n' = low n" by (subst f) simp
  show "high n' = high n" by (subst f) simp
next
  assume h: "Categorical_set_transformer c t = (e3, c')"
  have f: "c' = c\<lparr>transform_mode := t, transformer := transformer c', rvs_dist := rvs_dist c'\<rparr>"
    using Categorical_set_transformer_frame [of c t] h by simp
  show "c' = c\<lparr>transform_mode := t, transformer := transformer c', rvs_dist := rvs_dist c'\<rparr>"
    by (rule f)
  show "categories c' = categories c" by (subst f) simp
qed

lemma Real_set_transformer_bad_mode:
  "Real_set_transformer Real_0_1 ''onehot'' =
     (Some ValueError, Real_0_1\<lparr>transform_mode := ''onehot''\<rparr>)"
  by (simp add: Real_set_transformer_def Let_def)

lemma Integer_set_transformer_normalize:
  "Integer_set_transformer Integer_0_10 ''normalize'' =
     (None, Integer_0_10\<lparr>transform_mode := ''normalize'',
        rvs_dist := Some (UniformInclusive 0 1),
        transformer := Some (Pipeline [Identity, Normalize 0 10 True False None])\<rparr>)"
  by (simp add: Integer_set_transformer_def Let_def uniform_inclusive_def Integer_0_10_def)

lemma Categorical_set_transformer_label:
  "Categorical_set_transformer Categorical_a_b ''label'' =
     (None, Categorical_a_b\<lparr>transform_mode := ''label'',
        transformer := Some (LabelEncoder [PStr ''a'', PStr ''b'']),
        rvs_dist := Some (RvDiscrete [0, 1] [1 / 2, 1 / 2])\<rparr>)"
  by (simp add: Categorical_set_transformer_def Let_def Categorical_a_b_def numeral_2_eq_2)

theorem set_transformer_frame_witness:
  "Real_set_transformer Real_0_1 ''onehot'' =
     (Some ValueError, Real_0_1\<lparr>transform_mode := ''onehot''\<rparr>)
   \<and> low (Real_0_1\<lparr>transform_mode := ''onehot''\<rparr>) = low Real_0_1
   \<and> high (Real_0_1\<lparr>transform_mode := ''onehot''\<rparr>) = high Real_0_1
   \<and> fst (Integer_set_transformer Integer_0_10 ''normalize'') = None
   \<and> low (snd (Integer_set_transformer Integer_0_10 ''normalize'')) = 0
   \<and> high (snd (Integer_set_transformer Integer_0_10 ''normalize'')) = 10
   \<and> fst (Categorical_set_transformer Categorical_a_b ''label'') = None
   \<and> categories (snd (Categorical_set_transformer Categorical_a_b ''label''))
       = [PStr ''a'', PStr ''b'']"
  using set_transformer_frame [of Real_0_1 "''onehot''" "Some ValueError"
      "Real_0_1\<lparr>transform_mode := ''onehot''\<rparr>"]
    set_transformer_frame [of _ "''normalize''" _ _
      Integer_0_10 None "snd (Integer_set_transformer Integer_0_10 ''normalize'')"]
    set_transformer_frame [of _ "''label''" _ _ _ _ _
      Categorical_a_b None "snd (Categorical_set_transformer Categorical_a_b ''label'')"]
    Real_set_transformer_bad_mode Integer_set_transformer_normalize
    Categorical_set_transformer_label
  by (simp add: Integer_0_10_def Categorical_a_b_def)

section \<open>Distance\<close>

text \<open>
  C3 (as amended): for a Real or Integer dimension, distance(a, b) is \<open>\<bar>a - b\<bar>\<close> when both
  operands lie in [low, high]; for a Categorical dimension it is 0 when the operands are
  equal and 1 otherwise, when both are among the categories. With an operand outside the
  domain, each of the three raises RuntimeError, which is not a ValueError.
\<close>

theorem distance_in_domain_or_RuntimeError:
  "Real_distance r a b =
     (if low r \<le> a \<and> a \<le> high r \<and> low r \<le> b \<and> b \<le> high r then Inr \<bar>a - b\<bar>
      else Inl RuntimeError)
   \<and> Integer_distance n a b =
     (if low n \<le> a \<and> a \<le> high n \<and> low n \<le> b \<and> b \<le> high n then Inr \<bar>a - b\<bar>
      else Inl RuntimeError)
   \<and> Categorical_distance c x y =
     (if py_in x (categories c) \<and> py_in y (categories c)
      then Inr (if py_eq x y then 0 else 1)
      else Inl RuntimeError)"
  by (auto simp: Real_distance_def Real_contains_def Integer_distance_def Integer_contains_def
      Categorical_distance_def Categorical_contains_def)

theorem distance_in_domain_or_RuntimeError_witness:
  "Integer_distance Integer_0_10 2 7 = Inr 5
   \<and> Real_distance Real_0_1 2 (1 / 2) = Inl RuntimeError
   \<and> Categorical_distance Categorical_a_b (PStr ''a'') (PStr ''a'') = Inr 0
   \<and> Categorical_distance Categorical_a_b (PStr ''a'') (PStr ''b'') = Inr 1
   \<and> Categorical_distance Categorical_a_b (PStr ''a'') (PStr ''z'') = Inl RuntimeError"
  using distance_in_domain_or_RuntimeError
      [of Real_0_1 2 "1 / 2" Integer_0_10 Categorical_a_b "PStr ''a''" "PStr ''a''"]
    distance_in_domain_or_RuntimeError
      [of Real_0_1 2 "1 / 2" Integer_0_10 Categorical_a_b "PStr ''a''" "PStr ''b''"]
    distance_in_domain_or_RuntimeError
      [of Real_0_1 2 "1 / 2" Integer_0_10 Categorical_a_b "PStr ''a''" "PStr ''z''"]
    distance_in_domain_or_RuntimeError [of Real_0_1 2 7 Integer_0_10]
  by (simp add: Real_0_1_def Integer_0_10_def Categorical_a_b_def py_eq_def)

text \<open>
  The claim as stated fails: \<^verbatim>\<open>Real(0, 1).distance(2, 0.5)\<close> has the operand 2 outside
  [0, 1], and the exception is RuntimeError, not ValueError.
\<close>

theorem distance_outside_not_ValueError:
  "\<not> Real_contains Real_0_1 2
   \<and> Real_distance Real_0_1 2 (1 / 2) = Inl RuntimeError
   \<and> Real_distance Real_0_1 2 (1 / 2) \<noteq> Inl ValueError"
  by (simp add: Real_distance_def Real_contains_def Real_0_1_def)

section \<open>Space.__getitem__\<close>

lemma py_eq_refl: "py_eq a a"
  by (cases a) (simp_all add: py_eq_def)

lemma py_eq_PStr_PInt: "\<not> py_eq (PStr s) (PInt i)"
  by (simp add: py_eq_def)

lemma py_eq_PInt: "py_eq (PInt i) (PInt j) = (i = j)"
  by (simp add: py_eq_def)

lemma py_eq_PStr: "py_eq (PStr s) v = (v = PStr s)"
  by (cases v) (auto simp add: py_eq_def)

lemma py_eq_PInt_name: "\<not> py_eq (PInt i) (dim_name d)"
  by (cases d) (auto simp: py_eq_def split: option.splits)

text \<open>The loop of \<^verbatim>\<open>_get\<close>, started at index \<open>n\<close>: no match, and the first match.\<close>

lemma get_loop_none:
  "\<forall>j < length ds. \<not> py_eq k (dim_name (ds ! j)) \<and> \<not> py_eq k (PInt (int (n + j))) \<Longrightarrow>
   get_loop n ds k = None"
proof (induction ds arbitrary: n)
  case Nil
  then show ?case by simp
next
  case (Cons d ds)
  from Cons.prems have h0: "\<not> py_eq k (dim_name d) \<and> \<not> py_eq k (PInt (int n))"
    by (metis add.right_neutral length_greater_0_conv list.distinct(1) nth_Cons_0)
  have "\<forall>j < length ds. \<not> py_eq k (dim_name (ds ! j)) \<and> \<not> py_eq k (PInt (int (Suc n + j)))"
  proof (intro allI impI)
    fix j assume "j < length ds"
    then have "Suc j < length (d # ds)" by simp
    with Cons.prems
    have "\<not> py_eq k (dim_name ((d # ds) ! Suc j)) \<and> \<not> py_eq k (PInt (int (n + Suc j)))"
      by blast
    then show "\<not> py_eq k (dim_name (ds ! j)) \<and> \<not> py_eq k (PInt (int (Suc n + j)))"
      by simp
  qed
  then have "get_loop (Suc n) ds k = None" by (rule Cons.IH)
  with h0 show ?case by simp
qed

lemma get_loop_first:
  "j < length ds \<Longrightarrow>
   py_eq k (dim_name (ds ! j)) \<or> py_eq k (PInt (int (n + j))) \<Longrightarrow>
   \<forall>i < j. \<not> py_eq k (dim_name (ds ! i)) \<and> \<not> py_eq k (PInt (int (n + i))) \<Longrightarrow>
   get_loop n ds k = Some (n + j, ds ! j)"
proof (induction ds arbitrary: n j)
  case Nil
  then show ?case by simp
next
  case (Cons d ds)
  show ?case
  proof (cases j)
    case 0
    with Cons.prems show ?thesis by auto
  next
    case (Suc j')
    from Cons.prems(3) Suc have h0: "\<not> py_eq k (dim_name d) \<and> \<not> py_eq k (PInt (int n))"
      by (metis add.right_neutral nth_Cons_0 zero_less_Suc)
    have a: "j' < length ds" using Cons.prems(1) Suc by simp
    have b: "py_eq k (dim_name (ds ! j')) \<or> py_eq k (PInt (int (Suc n + j')))"
      using Cons.prems(2) Suc by simp
    have c: "\<forall>i < j'. \<not> py_eq k (dim_name (ds ! i)) \<and> \<not> py_eq k (PInt (int (Suc n + i)))"
    proof (intro allI impI)
      fix i assume "i < j'"
      then have "Suc i < j" using Suc by simp
      with Cons.prems(3)
      have "\<not> py_eq k (dim_name ((d # ds) ! Suc i)) \<and> \<not> py_eq k (PInt (int (n + Suc i)))"
        by blast
      then show "\<not> py_eq k (dim_name (ds ! i)) \<and> \<not> py_eq k (PInt (int (Suc n + i)))"
        by simp
    qed
    have "get_loop (Suc n) ds k = Some (Suc n + j', ds ! j')"
      using a b c by (rule Cons.IH)
    with h0 Suc show ?thesis by simp
  qed
qed

text \<open>
  C8: a lookup by a name that no dimension has, or by an index outside the dimensions,
  returns the pair (None, None), here \<open>None\<close>, and does not raise; a lookup by a name that
  several dimensions have returns the first of them in dimension order with its index,
  and a lookup by an index within range returns that dimension with its index.
\<close>

theorem Space_getitem_first_match:
  "((\<forall>d \<in> set (dimensions sp). dim_name d \<noteq> PStr s) \<longrightarrow>
      Space_getitem sp (Scalar (PStr s)) = Inr (One None))
   \<and> ((i < 0 \<or> int (length (dimensions sp)) \<le> i) \<longrightarrow>
      Space_getitem sp (Scalar (PInt i)) = Inr (One None))
   \<and> (j < length (dimensions sp) \<longrightarrow> dim_name (dimensions sp ! j) = PStr s \<longrightarrow>
       (\<forall>i < j. dim_name (dimensions sp ! i) \<noteq> PStr s) \<longrightarrow>
      Space_getitem sp (Scalar (PStr s)) = Inr (One (Some (j, dimensions sp ! j))))
   \<and> (j < length (dimensions sp) \<longrightarrow>
      Space_getitem sp (Scalar (PInt (int j))) = Inr (One (Some (j, dimensions sp ! j))))"
proof (intro conjI impI)
  assume "\<forall>d \<in> set (dimensions sp). dim_name d \<noteq> PStr s"
  then have "get_loop 0 (dimensions sp) (PStr s) = None"
    by (intro get_loop_none) (simp add: py_eq_PStr py_eq_PStr_PInt)
  then show "Space_getitem sp (Scalar (PStr s)) = Inr (One None)"
    by (simp add: get_def)
next
  assume "i < 0 \<or> int (length (dimensions sp)) \<le> i"
  then have "get_loop 0 (dimensions sp) (PInt i) = None"
    by (intro get_loop_none) (auto simp: py_eq_PInt py_eq_PInt_name)
  then show "Space_getitem sp (Scalar (PInt i)) = Inr (One None)"
    by (simp add: get_def)
next
  assume "j < length (dimensions sp)" "dim_name (dimensions sp ! j) = PStr s"
    "\<forall>i < j. dim_name (dimensions sp ! i) \<noteq> PStr s"
  then have "get_loop 0 (dimensions sp) (PStr s) = Some (0 + j, dimensions sp ! j)"
    by (intro get_loop_first) (simp_all add: py_eq_PStr py_eq_PStr_PInt)
  then show "Space_getitem sp (Scalar (PStr s)) = Inr (One (Some (j, dimensions sp ! j)))"
    by (simp add: get_def)
next
  assume "j < length (dimensions sp)"
  then have "get_loop 0 (dimensions sp) (PInt (int j)) = Some (0 + j, dimensions sp ! j)"
    by (intro get_loop_first) (simp_all add: py_eq_PInt py_eq_PInt_name)
  then show "Space_getitem sp (Scalar (PInt (int j))) = Inr (One (Some (j, dimensions sp ! j)))"
    by (simp add: get_def)
qed

theorem Space_getitem_first_match_witness:
  "Space_getitem \<lparr>dimensions = [Real Real_0_1, Integer (Integer_0_10\<lparr>name := Some ''x''\<rparr>),
                                 Categorical (Categorical_a_b\<lparr>name := Some ''x''\<rparr>)]\<rparr>
     (Scalar (PStr ''x'')) = Inr (One (Some (1, Integer (Integer_0_10\<lparr>name := Some ''x''\<rparr>))))
   \<and> Space_getitem \<lparr>dimensions = [Real Real_0_1, Integer (Integer_0_10\<lparr>name := Some ''x''\<rparr>),
                                 Categorical (Categorical_a_b\<lparr>name := Some ''x''\<rparr>)]\<rparr>
     (Scalar (PStr ''y'')) = Inr (One None)
   \<and> Space_getitem \<lparr>dimensions = [Real Real_0_1, Integer (Integer_0_10\<lparr>name := Some ''x''\<rparr>),
                                 Categorical (Categorical_a_b\<lparr>name := Some ''x''\<rparr>)]\<rparr>
     (Scalar (PInt 3)) = Inr (One None)
   \<and> Space_getitem \<lparr>dimensions = [Real Real_0_1, Integer (Integer_0_10\<lparr>name := Some ''x''\<rparr>),
                                 Categorical (Categorical_a_b\<lparr>name := Some ''x''\<rparr>)]\<rparr>
     (Scalar (PInt 2)) = Inr (One (Some (2, Categorical (Categorical_a_b\<lparr>name := Some ''x''\<rparr>))))"
  using Space_getitem_first_match
      [of "\<lparr>dimensions = [Real Real_0_1, Integer (Integer_0_10\<lparr>name := Some ''x''\<rparr>),
                           Categorical (Categorical_a_b\<lparr>name := Some ''x''\<rparr>)]\<rparr>" "''x''" 3 1]
    Space_getitem_first_match
      [of "\<lparr>dimensions = [Real Real_0_1, Integer (Integer_0_10\<lparr>name := Some ''x''\<rparr>),
                           Categorical (Categorical_a_b\<lparr>name := Some ''x''\<rparr>)]\<rparr>" "''y''" 3 2]
  by (simp add: Real_0_1_def Integer_0_10_def Categorical_a_b_def)

section \<open>Space.__eq__\<close>

lemma isclose_refl: "isclose x x"
  by (simp add: isclose_def)

lemma tuple_eq_refl: "tuple_eq xs xs"
  by (simp add: tuple_eq_def list_all2_same py_eq_refl)

lemma allclose_refl: "allclose p p = Inr True"
  by (simp add: allclose_def list_all2_same isclose_refl)

lemma Dimension_eq_refl: "Dimension_eq d d = Inr True"
  by (cases d) (simp_all add: isclose_refl tuple_eq_refl allclose_refl)

lemma collect_map_Inr_id: "collect (map Inr bs) = Inr bs"
  by (induction bs) simp_all

lemma collect_Inr_D: "collect rs = Inr bs \<Longrightarrow> rs = map Inr bs"
  by (induction rs arbitrary: bs) (auto split: sum.splits)

lemma collect_Inr_iff: "collect rs = Inr bs \<longleftrightarrow> rs = map Inr bs"
  using collect_Inr_D [of rs bs] collect_map_Inr_id [of bs] by auto

lemma Space_eq_Inr:
  "Space_eq \<lparr>dimensions = xs\<rparr> \<lparr>dimensions = ys\<rparr> = Inr b \<longleftrightarrow>
     (\<forall>i < min (length xs) (length ys). \<exists>c. Dimension_eq (xs ! i) (ys ! i) = Inr c)
     \<and> b = (\<forall>i < min (length xs) (length ys). Dimension_eq (xs ! i) (ys ! i) = Inr True)"
  (is "?L \<longleftrightarrow> ?A \<and> ?B")
proof
  let ?rs = "map (\<lambda>(a, b). Dimension_eq a b) (zip xs ys)"
  assume ?L
  then obtain bs where bs: "collect ?rs = Inr bs" "b = list_all (\<lambda>b. b) bs"
    by (auto simp: Space_eq_def split: sum.splits)
  then have rs: "?rs = map Inr bs" by (simp add: collect_Inr_iff)
  from arg_cong [OF rs, of length]
  have len: "length bs = min (length xs) (length ys)" by simp
  have nth: "Dimension_eq (xs ! i) (ys ! i) = Inr (bs ! i)" if "i < min (length xs) (length ys)" for i
    using that rs len nth_map [of i "zip xs ys" "\<lambda>(a, b). Dimension_eq a b"] by simp
  have ?A using nth by blast
  moreover have ?B
    using bs(2) nth len by (auto simp: list_all_length)
  ultimately show "?A \<and> ?B" ..
next
  let ?rs = "map (\<lambda>(a, b). Dimension_eq a b) (zip xs ys)"
  let ?n = "min (length xs) (length ys)"
  assume ab: "?A \<and> ?B"
  let ?bs = "map (\<lambda>i. Dimension_eq (xs ! i) (ys ! i) = Inr True) [0..<?n]"
  have "?rs = map Inr ?bs"
  proof (rule nth_equalityI)
    show "length ?rs = length (map Inr ?bs)" by simp
  next
    fix i assume "i < length ?rs"
    then have i: "i < ?n" by simp
    with ab obtain c where "Dimension_eq (xs ! i) (ys ! i) = Inr c" by blast
    with i show "?rs ! i = map Inr ?bs ! i" by simp
  qed
  then have "collect ?rs = Inr ?bs" by (simp only: collect_Inr_iff)
  then have "Space_eq \<lparr>dimensions = xs\<rparr> \<lparr>dimensions = ys\<rparr> = Inr (list_all (\<lambda>b. b) ?bs)"
    by (simp add: Space_eq_def)
  also have "list_all (\<lambda>b. b) ?bs = b"
    using ab by (auto simp: list_all_length)
  finally show ?L .
qed

text \<open>
  C9 (as amended): Space.__eq__ compares the two dimension lists pairwise over zip and
  never their lengths. It returns True exactly when \<^verbatim>\<open>a == b\<close> is True for every pair of
  the zip, the dimension of the left Space on the left, and False exactly when no comparison
  raises and one of them is False. So when the shorter list is element-wise equal to a prefix
  of the longer one, with the dimensions taken in either order, equality holds in both
  directions; it does when one list is a prefix of the other, and a Space without
  dimensions equals every Space.
\<close>

theorem Space_eq_prefix:
  "(Space_eq \<lparr>dimensions = xs\<rparr> \<lparr>dimensions = ys\<rparr> = Inr True \<longleftrightarrow>
      (\<forall>i < min (length xs) (length ys). Dimension_eq (xs ! i) (ys ! i) = Inr True))
   \<and> (Space_eq \<lparr>dimensions = xs\<rparr> \<lparr>dimensions = ys\<rparr> = Inr False \<longleftrightarrow>
      (\<forall>i < min (length xs) (length ys). \<not> isl (Dimension_eq (xs ! i) (ys ! i)))
      \<and> (\<exists>i < min (length xs) (length ys). Dimension_eq (xs ! i) (ys ! i) = Inr False))
   \<and> (length xs \<le> length ys \<longrightarrow>
      (\<forall>i < length xs. Dimension_eq (xs ! i) (ys ! i) = Inr True
                       \<and> Dimension_eq (ys ! i) (xs ! i) = Inr True) \<longrightarrow>
      Space_eq \<lparr>dimensions = xs\<rparr> \<lparr>dimensions = ys\<rparr> = Inr True
      \<and> Space_eq \<lparr>dimensions = ys\<rparr> \<lparr>dimensions = xs\<rparr> = Inr True)
   \<and> Space_eq \<lparr>dimensions = xs\<rparr> \<lparr>dimensions = xs @ zs\<rparr> = Inr True
   \<and> Space_eq \<lparr>dimensions = xs @ zs\<rparr> \<lparr>dimensions = xs\<rparr> = Inr True
   \<and> Space_eq \<lparr>dimensions = []\<rparr> \<lparr>dimensions = zs\<rparr> = Inr True
   \<and> Space_eq \<lparr>dimensions = zs\<rparr> \<lparr>dimensions = []\<rparr> = Inr True"
proof (intro conjI impI)
  show "Space_eq \<lparr>dimensions = xs\<rparr> \<lparr>dimensions = ys\<rparr> = Inr True \<longleftrightarrow>
      (\<forall>i < min (length xs) (length ys). Dimension_eq (xs ! i) (ys ! i) = Inr True)"
    unfolding Space_eq_Inr by auto
  show "Space_eq \<lparr>dimensions = xs\<rparr> \<lparr>dimensions = ys\<rparr> = Inr False \<longleftrightarrow>
      (\<forall>i < min (length xs) (length ys). \<not> isl (Dimension_eq (xs ! i) (ys ! i)))
      \<and> (\<exists>i < min (length xs) (length ys). Dimension_eq (xs ! i) (ys ! i) = Inr False)"
  proof -
    have "(\<exists>c. r = Inr c) \<longleftrightarrow> \<not> isl r" for r :: "error + bool"
      by (cases r) simp_all
    moreover have "r \<noteq> Inr True \<longleftrightarrow> r = Inr False" if "\<not> isl r" for r :: "error + bool"
      using that by (cases r) auto
    ultimately show ?thesis
      unfolding Space_eq_Inr by auto
  qed
next
  assume le: "length xs \<le> length ys"
    and eq: "\<forall>i < length xs. Dimension_eq (xs ! i) (ys ! i) = Inr True
                       \<and> Dimension_eq (ys ! i) (xs ! i) = Inr True"
  show "Space_eq \<lparr>dimensions = xs\<rparr> \<lparr>dimensions = ys\<rparr> = Inr True"
    unfolding Space_eq_Inr using le eq by (auto simp: min_def)
  show "Space_eq \<lparr>dimensions = ys\<rparr> \<lparr>dimensions = xs\<rparr> = Inr True"
    unfolding Space_eq_Inr using le eq by (auto simp: min_def)
next
  show "Space_eq \<lparr>dimensions = xs\<rparr> \<lparr>dimensions = xs @ zs\<rparr> = Inr True"
    unfolding Space_eq_Inr by (auto simp: nth_append Dimension_eq_refl)
  show "Space_eq \<lparr>dimensions = xs @ zs\<rparr> \<lparr>dimensions = xs\<rparr> = Inr True"
    unfolding Space_eq_Inr by (auto simp: nth_append Dimension_eq_refl)
  show "Space_eq \<lparr>dimensions = []\<rparr> \<lparr>dimensions = zs\<rparr> = Inr True"
    by (simp add: Space_eq_def)
  show "Space_eq \<lparr>dimensions = zs\<rparr> \<lparr>dimensions = []\<rparr> = Inr True"
    by (simp add: Space_eq_def)
qed

lemma Real_0_1_close:
  "Dimension_eq (Real Real_0_1) (Real (Real_0_1\<lparr>high := 1000001 / 1000000\<rparr>)) = Inr True"
  "Dimension_eq (Real (Real_0_1\<lparr>high := 1000001 / 1000000\<rparr>)) (Real Real_0_1) = Inr True"
  by (simp_all add: Real_0_1_def isclose_def)

theorem Space_eq_prefix_witness:
  "Space_eq \<lparr>dimensions = [Real Real_0_1]\<rparr>
            \<lparr>dimensions = [Real (Real_0_1\<lparr>high := 1000001 / 1000000\<rparr>),
                           Integer Integer_0_10]\<rparr> = Inr True
   \<and> Space_eq \<lparr>dimensions = [Real (Real_0_1\<lparr>high := 1000001 / 1000000\<rparr>),
                              Integer Integer_0_10]\<rparr>
               \<lparr>dimensions = [Real Real_0_1]\<rparr> = Inr True
   \<and> Space_eq \<lparr>dimensions = [Integer Integer_0_10]\<rparr>
               \<lparr>dimensions = [Real Real_0_1, Real Real_0_1]\<rparr> = Inr False
   \<and> Space_eq \<lparr>dimensions = []\<rparr> \<lparr>dimensions = [Categorical Categorical_a_b]\<rparr> = Inr True
   \<and> Space_eq \<lparr>dimensions = [Categorical Categorical_a_b]\<rparr> \<lparr>dimensions = []\<rparr> = Inr True"
  using Space_eq_prefix [of "[Real Real_0_1]"
      "[Real (Real_0_1\<lparr>high := 1000001 / 1000000\<rparr>), Integer Integer_0_10]"
      "[Categorical Categorical_a_b]"]
    Space_eq_prefix [of "[Integer Integer_0_10]" "[Real Real_0_1, Real Real_0_1]" "[]"]
    Real_0_1_close
  by simp

text \<open>
  Element-wise equality in one order is not enough for both directions. The tolerance of
  \<^verbatim>\<open>np.allclose\<close> is relative to its second argument, so \<^verbatim>\<open>Real(0, 1)\<close> equals
  \<^verbatim>\<open>Real(0, 1.00001001005)\<close> and the latter does not equal the former: the Space of the
  first equals a Space that starts with the second, and not the other way round.
\<close>

theorem Space_eq_one_direction:
  "Real_init (PInt 0) (PFloat (100001001005 / 10 ^ 11)) (PStr ''uniform'') (PInt 10) None PNone
       (DType ''float'') = Inr Real_0_1_wider
   \<and> Dimension_eq (Real Real_0_1) (Real Real_0_1_wider) = Inr True
   \<and> Dimension_eq (Real Real_0_1_wider) (Real Real_0_1) = Inr False
   \<and> Space_eq \<lparr>dimensions = [Real Real_0_1]\<rparr>
               \<lparr>dimensions = [Real Real_0_1_wider, Integer Integer_0_10]\<rparr> = Inr True
   \<and> Space_eq \<lparr>dimensions = [Real Real_0_1_wider, Integer Integer_0_10]\<rparr>
               \<lparr>dimensions = [Real Real_0_1]\<rparr> = Inr False"
proof -
  have 1: "Real_init (PInt 0) (PFloat (100001001005 / 10 ^ 11)) (PStr ''uniform'') (PInt 10) None PNone
       (DType ''float'') = Inr Real_0_1_wider"
    by (simp add: Real_init_def Real_dtype_ok_def Real_set_transformer_def Let_def
        uniform_inclusive_def Real_0_1_wider_def)
  have 2: "Dimension_eq (Real Real_0_1) (Real Real_0_1_wider) = Inr True"
    by (simp add: Real_0_1_def Real_0_1_wider_def isclose_def)
  have 3: "Dimension_eq (Real Real_0_1_wider) (Real Real_0_1) = Inr False"
    by (simp add: Real_0_1_def Real_0_1_wider_def isclose_def)
  from 1 2 3 show ?thesis by (simp add: Space_eq_def)
qed


section \<open>check_dimension on a triple\<close>

text \<open>
  C2: for a description of length 3 whose third element is "uniform" or "log-uniform",
  the claim is that check_dimension returns an Integer only when both bounds are whole
  numbers and a Real when either is a non-integer real number, as for length 2. The
  length-3 branch tests \<^verbatim>\<open>any(isinstance(dim, int) ...)\<close> where the length-2 branch tests
  \<^verbatim>\<open>all(isinstance(dim, numbers.Integral) ...)\<close>: on \<^verbatim>\<open>(1, 2.5, "uniform")\<close> it returns an
  Integer dimension with high 2.5, while \<^verbatim>\<open>(1, 2.5)\<close> gives a Real dimension.
\<close>

theorem check_dimension_triple_mixed_bounds:
  "check_dimension (Seq [PInt 1, PFloat (5 / 2), PStr ''uniform'']) None =
     Inr (Integer
       \<lparr>name = None, transform_mode = ''identity'', transformer = Some Identity,
        rvs_dist = Some (Randint 1 (7 / 2)), low = 1, high = 5 / 2, prior = ''uniform'',
        base = 10, log_base = 1, dtype = DType ''np.int64''\<rparr>)
   \<and> check_dimension (Seq [PInt 1, PFloat (5 / 2)]) None =
     Inr (Real
       \<lparr>name = None, transform_mode = ''identity'', transformer = Some Identity,
        rvs_dist = Some (UniformInclusive 1 (3 / 2)), low = 1, high = 5 / 2,
        prior = ''uniform'', base = 10, log_base = 1, dtype = DType ''float''\<rparr>)"
  by (simp add: check_dimension_def mk_Integer_def mk_Real_def Integer_init_def Real_init_def
      Integer_dtype_ok_def Real_dtype_ok_def Integer_set_transformer_def
      Real_set_transformer_def Let_def uniform_inclusive_def uniform_priors_def py_eq_def)

section \<open>Maps over arrays, rounding and clipping\<close>

lemma collect_map_Inr:
  "\<forall>x \<in> set xs. f x = Inr (g x) \<Longrightarrow> collect (map f xs) = Inr (map g xs)"
  by (induction xs) auto

lemma map_cells_Inr:
  "\<forall>x \<in> set xs. f x = Inr (g x) \<Longrightarrow> map_cells f xs = Inr (map g xs)"
  by (simp add: map_cells_def collect_map_Inr)

lemma map_arr_Arr1:
  "\<forall>x \<in> set xs. f x = Inr (g x) \<Longrightarrow> map_arr f (Arr1 xs) = Inr (Arr1 (map g xs))"
  using map_cells_Inr [of xs f g] by (simp add: map_arr_def)




lemma np_round_of_int: "np_round (of_int i) = i"
  by (simp add: np_round_def)








section \<open>Round trip of a Real dimension\<close>

text \<open>What a successful \<^verbatim>\<open>Real.set_transformer\<close> leaves, by mode.\<close>

lemma Real_set_transformer_modes:
  "Real_set_transformer d0 t = (None, d) \<Longrightarrow>
   t = ''normalize'' \<or> t = ''identity'' \<or> t = ''normalize_unbounded''"
  by (rule ccontr) (simp add: Real_set_transformer_def Let_def)

lemma Real_mode_identity:
  "Real_set_transformer d0 ''identity'' = (None, d) \<Longrightarrow>
   low d = low d0 \<and> high d = high d0 \<and> dtype d = dtype d0 \<and>
   transformer d = Some (if prior d0 = ''uniform'' then Identity else LogN (base d0))"
  by (cases "prior d0 = ''uniform''") (auto simp add: Real_set_transformer_def Let_def)

lemma Real_mode_normalize:
  "t = ''normalize'' \<or> t = ''normalize_unbounded'' \<Longrightarrow>
   Real_set_transformer d0 t = (None, d) \<Longrightarrow>
   low d = low d0 \<and> high d = high d0 \<and> dtype d = dtype d0 \<and>
   transformer d = Some
     (if prior d0 = ''uniform''
      then Pipeline [Identity, Normalize (low d0) (high d0) False (t = ''normalize_unbounded'') None]
      else Pipeline [LogN (base d0),
             Normalize (log 10 (low d0) / log_base d0) (log 10 (high d0) / log_base d0)
               False (t = ''normalize_unbounded'') None])"
  by (cases "prior d0 = ''uniform''") (auto simp add: Real_set_transformer_def Let_def)




section \<open>Round trip of an Integer dimension\<close>


lemma Integer_set_transformer_modes:
  "Integer_set_transformer d0 t = (None, d) \<Longrightarrow> t = ''normalize'' \<or> t = ''identity''"
  by (rule ccontr) (simp add: Integer_set_transformer_def Let_def)

lemma Integer_mode_identity:
  "Integer_set_transformer d0 ''identity'' = (None, d) \<Longrightarrow>
   low d = low d0 \<and> high d = high d0 \<and> dtype d = dtype d0 \<and>
   transformer d = Some (if prior d0 = ''uniform'' then Identity else LogN (base d0))"
  by (cases "prior d0 = ''uniform''") (auto simp add: Integer_set_transformer_def Let_def)

lemma Integer_mode_normalize:
  "Integer_set_transformer d0 ''normalize'' = (None, d) \<Longrightarrow>
   low d = low d0 \<and> high d = high d0 \<and> dtype d = dtype d0 \<and>
   transformer d = Some
     (if prior d0 = ''uniform''
      then Pipeline [Identity, Normalize (low d0) (high d0) True False None]
      else Pipeline [LogN (base d0),
             Normalize (log 10 (low d0) / log_base d0) (log 10 (high d0) / log_base d0)
               False False None])"
  by (cases "prior d0 = ''uniform''") (auto simp add: Integer_set_transformer_def Let_def)



section \<open>Round trip of a Categorical dimension\<close>


lemma index_of_Some:
  "py_in v cats \<Longrightarrow> \<exists>i. index_of v cats = Some i \<and> i < length cats \<and> py_eq v (cats ! i)"
  by (induction cats) auto


lemma label_of_Val:
  "py_in v cats \<Longrightarrow> label_of cats (Val v) = Inr (the (index_of v cats))"
  using index_of_Some [of v cats] by (auto simp: label_of_def)

lemma category_at_label:
  "py_in v cats \<Longrightarrow>
   category_at cats (real (the (index_of v cats))) = Inr (Val (fitted cats v))"
  using index_of_Some [of v cats] by (auto simp: category_at_def fitted_def)

lemma LabelEncoder_round:
  assumes "\<forall>v \<in> set vs. py_in v cats"
  shows "map_arr (LabelEncoder_transform cats) (Arr1 (map Val vs))
           = Inr (Arr1 (map (\<lambda>v. Val (PInt (int (the (index_of v cats))))) vs))"
    and "map_arr (LabelEncoder_inverse cats)
           (Arr1 (map (\<lambda>v. Val (PInt (int (the (index_of v cats))))) vs))
           = Inr (Arr1 (map (\<lambda>v. Val (fitted cats v)) vs))"
proof -
  have "map_arr (LabelEncoder_transform cats) (Arr1 (map Val vs))
          = Inr (Arr1 (map (\<lambda>c. Val (PInt (int (the (index_of (case c of Val v \<Rightarrow> v) cats)))))
                   (map Val vs)))"
    using assms by (intro map_arr_Arr1) (auto simp: LabelEncoder_transform_def label_of_Val)
  then show "map_arr (LabelEncoder_transform cats) (Arr1 (map Val vs))
           = Inr (Arr1 (map (\<lambda>v. Val (PInt (int (the (index_of v cats))))) vs))"
    by (simp add: comp_def)
  have "map_arr (LabelEncoder_inverse cats)
           (Arr1 (map (\<lambda>v. Val (PInt (int (the (index_of v cats))))) vs))
        = Inr (Arr1 (map (\<lambda>c. Val (fitted cats (case c of Val v \<Rightarrow> v))) (map Val vs)))"
  proof -
    have "\<forall>v \<in> set vs. LabelEncoder_inverse cats (Val (PInt (int (the (index_of v cats)))))
            = Inr (Val (fitted cats v))"
      using assms category_at_label by (simp add: LabelEncoder_inverse_def)
    then have "collect (map (LabelEncoder_inverse cats)
                 (map (\<lambda>v. Val (PInt (int (the (index_of v cats))))) vs))
               = Inr (map (\<lambda>v. Val (fitted cats v)) vs)"
      using collect_map_Inr [of vs "\<lambda>v. LabelEncoder_inverse cats (Val (PInt (int (the (index_of v cats)))))"
          "\<lambda>v. Val (fitted cats v)"]
      by (simp add: comp_def)
    then show ?thesis by (simp add: map_arr_def map_cells_def comp_def)
  qed
  then show "map_arr (LabelEncoder_inverse cats)
           (Arr1 (map (\<lambda>v. Val (PInt (int (the (index_of v cats))))) vs))
           = Inr (Arr1 (map (\<lambda>v. Val (fitted cats v)) vs))"
    by (simp add: comp_def)
qed

lemma map_arr_map:
  assumes "\<forall>x \<in> set xs. f (c x) = Inr (g x)"
  shows "map_arr f (Arr1 (map c xs)) = Inr (Arr1 (map g xs))"
proof -
  have "collect (map (\<lambda>x. f (c x)) xs) = Inr (map g xs)"
    using assms by (rule collect_map_Inr)
  then show ?thesis by (simp add: map_arr_def map_cells_def comp_def)
qed

lemma StringEncoder_transform_Val: "StringEncoder_transform (Val v) = Inr (str_cell v)"
  by (cases v) (simp_all add: str_cell_def)







lemma first_one_onehot_aux:
  "i < length js \<Longrightarrow> distinct js \<Longrightarrow>
   first_one (map (\<lambda>j. if j = js ! i then 1 else 0) js) = Some i"
proof (induction js arbitrary: i)
  case Nil
  then show ?case by simp
next
  case (Cons a js)
  show ?case
  proof (cases i)
    case 0
    then show ?thesis by simp
  next
    case (Suc k)
    with Cons.prems have k: "k < length js" "distinct js" "js ! k \<noteq> a"
      by auto
    then have "first_one (map (\<lambda>j. if j = js ! k then 1 else 0) js) = Some k"
      by (intro Cons.IH)
    with Suc k show ?thesis by simp
  qed
qed

lemma first_one_onehot: "i < n \<Longrightarrow> first_one (onehot n i) = Some i"
  using first_one_onehot_aux [of i "[0..<n]"] by (simp add: onehot_def)

lemma cell_nums_floats: "cell_nums (map (\<lambda>x. Val (PFloat x)) xs) = Inr xs"
proof -
  have "collect (map (\<lambda>x. (case cell_num (Val (PFloat x)) of None \<Rightarrow> Inl TypeError
                             | Some y \<Rightarrow> Inr y)) xs) = Inr (map (\<lambda>x. x) xs)"
    by (rule collect_map_Inr) simp
  then show ?thesis by (simp add: cell_nums_def comp_def)
qed

lemma decode_onehot_row:
  assumes "py_in v cats"
  shows "onehot_row cats (Val v)
           = Inr (map (\<lambda>x. Val (PFloat x)) (onehot (length cats) (the (index_of v cats))))"
    and "decode_row cats (map (\<lambda>x. Val (PFloat x)) (onehot (length cats) (the (index_of v cats))))
           = Inr (Val (fitted cats v))"
proof -
  from index_of_Some [OF assms] obtain i where
    i: "index_of v cats = Some i" "i < length cats" by blast
  show "onehot_row cats (Val v)
           = Inr (map (\<lambda>x. Val (PFloat x)) (onehot (length cats) (the (index_of v cats))))"
    using assms by (simp add: onehot_row_def label_of_Val)
  show "decode_row cats (map (\<lambda>x. Val (PFloat x)) (onehot (length cats) (the (index_of v cats))))
           = Inr (Val (fitted cats v))"
    using i by (simp add: decode_row_def cell_nums_floats first_one_onehot fitted_def)
qed


lemma Categorical_set_transformer_modes:
  "Categorical_set_transformer d0 t = (None, d) \<Longrightarrow>
   t = ''identity'' \<or> t = ''onehot'' \<or> t = ''string'' \<or> t = ''normalize'' \<or>
   t = ''normalize_unbounded'' \<or> t = ''label''"
  by (rule ccontr) (simp add: Categorical_set_transformer_def Let_def)

lemma Categorical_mode_onehot:
  "Categorical_set_transformer d0 ''onehot'' = (None, d) \<Longrightarrow>
   categories d = categories d0 \<and> transform_mode d = ''onehot'' \<and>
   transformer d = Some (CategoricalEncoder (categories d0))"
  by (auto simp add: Categorical_set_transformer_def Let_def)

lemma Categorical_mode_string:
  "Categorical_set_transformer d0 ''string'' = (None, d) \<Longrightarrow>
   categories d = categories d0 \<and> transform_mode d = ''string'' \<and>
   transformer d = Some (StringEncoder (categories d0))"
  by (auto simp add: Categorical_set_transformer_def Let_def)

lemma Categorical_mode_label:
  "Categorical_set_transformer d0 ''label'' = (None, d) \<Longrightarrow>
   categories d = categories d0 \<and> transform_mode d = ''label'' \<and>
   transformer d = Some (LabelEncoder (categories d0))"
  by (auto simp add: Categorical_set_transformer_def Let_def)

lemma Categorical_mode_identity:
  "Categorical_set_transformer d0 ''identity'' = (None, d) \<Longrightarrow>
   categories d = categories d0 \<and> transform_mode d = ''identity'' \<and>
   transformer d = Some Identity"
  by (auto simp add: Categorical_set_transformer_def Let_def)

lemma Categorical_mode_normalize:
  "t = ''normalize'' \<or> t = ''normalize_unbounded'' \<Longrightarrow>
   Categorical_set_transformer d0 t = (None, d) \<Longrightarrow>
   categories d = categories d0 \<and> transform_mode d = t \<and>
   transformer d = Some (Pipeline [LabelEncoder (categories d0),
                  Normalize 0 (real (length (categories d0)) - 1) True False
                    (Some (length (categories d0)))])"
  by (auto simp add: Categorical_set_transformer_def Let_def)




section \<open>The shape of a transformed column\<close>

lemma map_arr_nums:
  assumes "\<forall>x \<in> set xs. cell_num (c x) \<noteq> None"
  shows "map_arr (on_num f) (Arr1 (map c xs)) = Inr (Arr1 (map (\<lambda>x. f (the (cell_num (c x)))) xs))"
  using assms by (intro map_arr_map) (auto simp: on_num_def)

lemma numeric_transform_shape:
  assumes num: "\<forall>v \<in> set vs. py_num v \<noteq> None"
    and tr: "tr = Identity \<or> tr = LogN b \<or> tr = Pipeline [Identity, Normalize lo hi i u n]
             \<or> tr = Pipeline [LogN b, Normalize lo hi i u n]"
  shows "\<exists>ys. transformer_transform tr (Arr1 (map Val vs)) = Inr (Arr1 ys) \<and> length ys = length vs"
proof -
  have c: "\<forall>v \<in> set vs. cell_num (Val v) \<noteq> None" using num by simp
  have 1: "map_arr (on_num f) (Arr1 (map Val vs))
             = Inr (Arr1 (map (\<lambda>v. f (the (cell_num (Val v)))) vs))" for f
    using c by (rule map_arr_nums)
  have 2: "map_arr (on_num (Normalize_transform lo hi))
             (Arr1 (map (\<lambda>v. LogN_transform b (the (cell_num (Val v)))) vs))
           = Inr (Arr1 (map (\<lambda>v. Normalize_transform lo hi
                 (the (cell_num (LogN_transform b (the (cell_num (Val v))))))) vs))"
    by (rule map_arr_nums) (simp add: LogN_transform_def)
  from tr consider "tr = Identity" | "tr = LogN b" | "tr = Pipeline [Identity, Normalize lo hi i u n]"
    | "tr = Pipeline [LogN b, Normalize lo hi i u n]" by argo
  then show ?thesis
  proof cases
    case 1
    then show ?thesis by simp
  next
    case 2
    then show ?thesis using 1 [of "LogN_transform b"] by simp
  next
    case 3
    then show ?thesis using 1 [of "Normalize_transform lo hi"] by simp
  next
    case 4
    then show ?thesis using 1 [of "LogN_transform b"] 2 by simp
  qed
qed

lemma Real_transform_shape:
  assumes conf: "Real_set_transformer d0 t = (None, d)"
    and num: "\<forall>v \<in> set vs. py_num v \<noteq> None"
  shows "\<exists>T. Dimension_transform (Real d) (Arr1 (map Val vs)) = Inr T \<and>
             arr_shape (length vs) (transformed_size (Real d)) T"
proof -
  have "\<exists>tr b lo hi i u n. transformer d = Some tr \<and>
          (tr = Identity \<or> tr = LogN b \<or> tr = Pipeline [Identity, Normalize lo hi i u n]
             \<or> tr = Pipeline [LogN b, Normalize lo hi i u n])"
    using Real_set_transformer_modes [OF conf] Real_mode_identity [of d0 d]
      Real_mode_normalize [of t d0 d] conf
    by (cases "prior d0 = ''uniform''") auto
  then obtain tr b lo hi i u n where tr: "transformer d = Some tr"
    "tr = Identity \<or> tr = LogN b \<or> tr = Pipeline [Identity, Normalize lo hi i u n]
             \<or> tr = Pipeline [LogN b, Normalize lo hi i u n]" by blast
  from numeric_transform_shape [OF num tr(2)] tr(1)
  show ?thesis by (auto simp: Dimension_transform_def arr_shape_def)
qed

lemma Integer_transform_shape:
  assumes conf: "Integer_set_transformer d0 t = (None, d)"
    and num: "\<forall>v \<in> set vs. py_num v \<noteq> None"
  shows "\<exists>T. Dimension_transform (Integer d) (Arr1 (map Val vs)) = Inr T \<and>
             arr_shape (length vs) (transformed_size (Integer d)) T"
proof -
  have "\<exists>tr b lo hi i u n. transformer d = Some tr \<and>
          (tr = Identity \<or> tr = LogN b \<or> tr = Pipeline [Identity, Normalize lo hi i u n]
             \<or> tr = Pipeline [LogN b, Normalize lo hi i u n])"
    using Integer_set_transformer_modes [OF conf] Integer_mode_identity [of d0 d]
      Integer_mode_normalize [of d0 d] conf
    by (cases "prior d0 = ''uniform''") auto
  then obtain tr b lo hi i u n where tr: "transformer d = Some tr"
    "tr = Identity \<or> tr = LogN b \<or> tr = Pipeline [Identity, Normalize lo hi i u n]
             \<or> tr = Pipeline [LogN b, Normalize lo hi i u n]" by blast
  from numeric_transform_shape [OF num tr(2)] tr(1)
  show ?thesis by (auto simp: Dimension_transform_def arr_shape_def)
qed

lemma length_onehot: "length (onehot n i) = n"
  by (simp add: onehot_def)

lemma enc_string:
  "transformer_transform (StringEncoder cats) (Arr1 (map Val vs)) = Inr (Arr1 (map str_cell vs))"
  by (simp add: map_arr_map StringEncoder_transform_Val)

lemma enc_label:
  assumes "\<forall>v \<in> set vs. py_in v cats"
  shows "transformer_transform (LabelEncoder cats) (Arr1 (map Val vs))
           = Inr (Arr1 (map (\<lambda>v. Val (PInt (int (the (index_of v cats))))) vs))"
  by (simp add: LabelEncoder_round [OF assms])

lemma enc_normalize:
  assumes dom: "\<forall>v \<in> set vs. py_in v cats"
  shows "transformer_transform (Pipeline [LabelEncoder cats, Normalize lo hi i u n]) (Arr1 (map Val vs))
          = Inr (Arr1 (map (\<lambda>v. Val (PFloat ((real (the (index_of v cats)) - lo) / (hi - lo)))) vs))"
proof -
  have "map_arr (on_num (Normalize_transform lo hi))
          (Arr1 (map (\<lambda>v. Val (PInt (int (the (index_of v cats))))) vs))
        = Inr (Arr1 (map (\<lambda>v. Val (PFloat ((real (the (index_of v cats)) - lo) / (hi - lo)))) vs))"
    by (rule map_arr_map) (simp add: on_num_def Normalize_transform_def)
  then show ?thesis by (simp add: LabelEncoder_round [OF dom])
qed

lemma enc_onehot_two:
  assumes "\<forall>v \<in> set vs. py_in v cats" "length cats = 2"
  shows "transformer_transform (CategoricalEncoder cats) (Arr1 (map Val vs))
           = Inr (Arr1 (map (\<lambda>v. Val (PInt (int (the (index_of v cats))))) vs))"
  using assms(2) by (simp add: CategoricalEncoder_transform_def LabelEncoder_round [OF assms(1)])

lemma enc_onehot:
  assumes dom: "\<forall>v \<in> set vs. py_in v cats" and n: "length cats \<noteq> 2"
  shows "transformer_transform (CategoricalEncoder cats) (Arr1 (map Val vs))
           = Inr (Arr2 (map (\<lambda>v. map (\<lambda>x. Val (PFloat x))
                                  (onehot (length cats) (the (index_of v cats)))) vs))"
proof -
  have "collect (map (\<lambda>v. onehot_row cats (Val v)) vs)
          = Inr (map (\<lambda>v. map (\<lambda>x. Val (PFloat x))
                                  (onehot (length cats) (the (index_of v cats)))) vs)"
    using dom by (intro collect_map_Inr) (simp add: decode_onehot_row)
  then show ?thesis
    using n by (simp add: CategoricalEncoder_transform_def comp_def)
qed

lemma Categorical_transform_shape:
  assumes conf: "Categorical_set_transformer d0 t = (None, d)"
    and dom: "\<forall>v \<in> set vs. py_in v (categories d)"
  shows "\<exists>T. Dimension_transform (Categorical d) (Arr1 (map Val vs)) = Inr T \<and>
             arr_shape (length vs) (transformed_size (Categorical d)) T"
proof -
  let ?cats = "categories d0"
  from Categorical_set_transformer_modes [OF conf]
  consider (ident) "t = ''identity''" | (onehot) "t = ''onehot''" | (string) "t = ''string''"
    | (norm) "t = ''normalize'' \<or> t = ''normalize_unbounded''" | (label) "t = ''label''"
    by argo
  then show ?thesis
  proof cases
    case ident
    with conf have "transformer d = Some Identity" "transform_mode d = ''identity''"
      using Categorical_mode_identity [of d0 d] by simp_all
    then show ?thesis
      by (simp add: Dimension_transform_def arr_shape_def Categorical_transformed_size_def)
  next
    case string
    with conf have "transformer d = Some (StringEncoder ?cats)" "transform_mode d = ''string''"
      using Categorical_mode_string [of d0 d] by simp_all
    with enc_string [of ?cats vs] show ?thesis
      by (simp add: Dimension_transform_def arr_shape_def Categorical_transformed_size_def)
  next
    case label
    with conf have r: "transformer d = Some (LabelEncoder ?cats)" "transform_mode d = ''label''"
      "categories d = ?cats"
      using Categorical_mode_label [of d0 d] by simp_all
    with dom have "\<forall>v \<in> set vs. py_in v ?cats" by simp
    from enc_label [OF this] r show ?thesis
      by (simp add: Dimension_transform_def arr_shape_def Categorical_transformed_size_def)
  next
    case norm
    with conf have r: "transformer d = Some (Pipeline [LabelEncoder ?cats,
        Normalize 0 (real (length ?cats) - 1) True False (Some (length ?cats))])"
      "transform_mode d = t" "categories d = ?cats"
      using Categorical_mode_normalize [of t d0 d] by simp_all
    with dom have "\<forall>v \<in> set vs. py_in v ?cats" by simp
    from enc_normalize [OF this] r norm show ?thesis
      by (auto simp add: Dimension_transform_def arr_shape_def Categorical_transformed_size_def)
  next
    case onehot
    with conf have r: "transformer d = Some (CategoricalEncoder ?cats)"
      "transform_mode d = ''onehot''" "categories d = ?cats"
      using Categorical_mode_onehot [of d0 d] by simp_all
    with dom have d: "\<forall>v \<in> set vs. py_in v ?cats" by simp
    show ?thesis
    proof (cases "length ?cats = 2")
      case True
      from enc_onehot_two [OF d True] r True show ?thesis
        by (simp add: Dimension_transform_def arr_shape_def Categorical_transformed_size_def)
    next
      case False
      from enc_onehot [OF d False] r False show ?thesis
        by (simp add: Dimension_transform_def arr_shape_def Categorical_transformed_size_def
            list_all_iff length_onehot)
    qed
  qed
qed

section \<open>Space.transform: columns, reshape and hstack\<close>

lemma column_ok:
  "\<forall>row \<in> set X. j < length row \<Longrightarrow> column X j = Inr (map (\<lambda>row. Val (row ! j)) X)"
  unfolding column_def by (rule collect_map_Inr) simp

lemma take1_drop: "i < length xs \<Longrightarrow> take (Suc 0) (drop i xs) = [xs ! i]"
  by (simp add: take_Suc_conv_app_nth hd_drop_conv_nth take_Suc)

lemma reshape_Arr1:
  assumes "xs \<noteq> []"
  shows "reshape_rows (length xs) (Arr1 xs) = Inr (map (\<lambda>x. [x]) xs)"
proof -
  have "map (\<lambda>i. take (Suc 0) (drop i xs)) [0..<length xs] = map (\<lambda>x. [x]) xs"
    by (rule nth_equalityI) (simp_all add: take1_drop)
  with assms show ?thesis by (simp add: reshape_rows_def)
qed

lemma take_drop_concat:
  "\<forall>r \<in> set rows. length r = k \<Longrightarrow> i < length rows \<Longrightarrow>
   take k (drop (i * k) (concat rows)) = rows ! i"
proof (induction rows arbitrary: i)
  case Nil
  then show ?case by simp
next
  case (Cons r rows)
  show ?case
  proof (cases i)
    case 0
    with Cons.prems show ?thesis by simp
  next
    case (Suc j)
    with Cons.prems have "take k (drop (j * k) (concat rows)) = rows ! j"
      by (intro Cons.IH) simp_all
    with Cons.prems Suc show ?thesis by simp
  qed
qed

lemma length_concat_uniform:
  "\<forall>r \<in> set rows. length r = k \<Longrightarrow> length (concat rows) = length rows * k"
  by (induction rows) simp_all

lemma reshape_Arr2:
  assumes "rows \<noteq> []" "\<forall>r \<in> set rows. length r = k"
  shows "reshape_rows (length rows) (Arr2 rows) = Inr rows"
proof -
  have len: "length (concat rows) = length rows * k"
    using assms(2) by (rule length_concat_uniform)
  have n: "0 < length rows" using assms(1) by simp
  have "map (\<lambda>i. take k (drop (i * k) (concat rows))) [0..<length rows] = rows"
    using assms(2) by (intro nth_equalityI) (simp_all add: take_drop_concat)
  with len n show ?thesis by (simp add: reshape_rows_def)
qed

lemma reshape_shape:
  assumes "0 < n" "arr_shape n k T"
  shows "\<exists>B. reshape_rows n T = Inr B \<and> length B = n \<and> (\<forall>r \<in> set B. length r = k)"
proof (cases T)
  case (Arr1 xs)
  with assms have "xs \<noteq> []" "length xs = n" "k = 1" by (auto simp: arr_shape_def)
  with reshape_Arr1 [of xs] Arr1 show ?thesis by auto
next
  case (Arr2 rows)
  with assms have "rows \<noteq> []" "length rows = n" "\<forall>r \<in> set rows. length r = k"
    by (auto simp: arr_shape_def list_all_iff)
  with reshape_Arr2 [of rows k] Arr2 show ?thesis by auto
qed

lemma contains_loop_nth:
  "contains_loop (zip ps ds) = Inr True \<Longrightarrow> j < length ps \<Longrightarrow> j < length ds \<Longrightarrow>
   Dimension_contains (ds ! j) (ps ! j) = Inr True"
proof (induction ps arbitrary: ds j)
  case Nil
  then show ?case by simp
next
  case (Cons p ps)
  then obtain d ds' where ds: "ds = d # ds'" by (cases ds) auto
  from Cons.prems(1) ds have h: "Dimension_contains d p = Inr True"
    "contains_loop (zip ps ds') = Inr True"
    by (auto split: sum.splits if_splits)
  show ?case
  proof (cases j)
    case 0
    with h ds show ?thesis by simp
  next
    case (Suc k)
    with Cons.prems ds have "k < length ps" "k < length ds'" by simp_all
    with h(2) have "Dimension_contains (ds' ! k) (ps ! k) = Inr True" by (intro Cons.IH)
    with Suc ds show ?thesis by simp
  qed
qed

lemma Dimension_contains_num:
  "Dimension_contains (Real d) v = Inr True \<Longrightarrow> py_num v \<noteq> None"
  "Dimension_contains (Integer d) v = Inr True \<Longrightarrow> py_num v \<noteq> None"
  by (auto split: option.splits)

lemma Dimension_transform_shape:
  assumes conf: "Dimension_set_transformer d0 t = (None, d)"
    and dom: "\<forall>v \<in> set vs. Dimension_contains d v = Inr True"
  shows "\<exists>T. Dimension_transform d (Arr1 (map Val vs)) = Inr T \<and>
             arr_shape (length vs) (transformed_size d) T"
proof (cases d0)
  case (Real r0)
  with conf obtain r where r: "d = Real r" "Real_set_transformer r0 t = (None, r)"
    by (auto split: prod.splits)
  with dom have "\<forall>v \<in> set vs. py_num v \<noteq> None"
    using Dimension_contains_num by blast
  from Real_transform_shape [OF r(2) this] r(1) show ?thesis by simp
next
  case (Integer r0)
  with conf obtain r where r: "d = Integer r" "Integer_set_transformer r0 t = (None, r)"
    by (auto split: prod.splits)
  with dom have "\<forall>v \<in> set vs. py_num v \<noteq> None"
    using Dimension_contains_num by blast
  from Integer_transform_shape [OF r(2) this] r(1) show ?thesis by simp
next
  case (Categorical c0)
  with conf obtain c where c: "d = Categorical c" "Categorical_set_transformer c0 t = (None, c)"
    by (auto split: prod.splits)
  with dom have "\<forall>v \<in> set vs. py_in v (categories c)"
    by (simp add: Categorical_contains_def)
  from Categorical_transform_shape [OF c(2) this] c(1) show ?thesis by simp
qed

lemma hstack_ok:
  assumes "blocks \<noteq> []" "\<forall>b \<in> set blocks. length b = n"
  shows "hstack blocks = Inr (map (\<lambda>i. concat (map (\<lambda>b. b ! i) blocks)) [0..<n])"
proof -
  have "hd blocks \<in> set blocks" using assms(1) by simp
  with assms(2) have "length (hd blocks) = n" by blast
  moreover have "\<not> list_ex (\<lambda>b. length b \<noteq> length (hd blocks)) blocks"
    using assms(2) \<open>length (hd blocks) = n\<close> by (simp add: list_ex_iff)
  ultimately show ?thesis using assms(1) by (simp add: hstack_def)
qed

lemma length_concat_sum:
  "length (concat (map f js)) = sum_list (map (\<lambda>j. length (f j)) js)"
  by (induction js) simp_all

lemma Space_transform_blocks:
  assumes conf: "\<forall>d \<in> set (dimensions sp). \<exists>d0 t. Dimension_set_transformer d0 t = (None, d)"
    and neX: "X \<noteq> []" and neD: "dimensions sp \<noteq> []"
    and rows: "\<forall>row \<in> set X. length row = n_dims sp \<and> Space_contains sp row = Inr True"
  shows "\<exists>blocks. length blocks = n_dims sp
          \<and> (\<forall>j < n_dims sp.
                length (blocks ! j) = length X
                \<and> (\<forall>r \<in> set (blocks ! j). length r = transformed_size (dimensions sp ! j))
                \<and> (\<exists>T. Dimension_transform (dimensions sp ! j)
                            (Arr1 (map (\<lambda>row. Val (row ! j)) X)) = Inr T
                        \<and> reshape_rows (length X) T = Inr (blocks ! j)))
          \<and> Space_transform sp X
              = Inr (map (\<lambda>i. concat (map (\<lambda>b. b ! i) blocks)) [0..<length X])"
proof -
  let ?ds = "dimensions sp"
  let ?n = "length ?ds"
  let ?N = "length X"
  let ?col = "\<lambda>j. map (\<lambda>row. Val (row ! j)) X"
  have N: "0 < ?N" using neX by simp
  have step: "\<exists>T B. Dimension_transform (?ds ! j) (Arr1 (?col j)) = Inr T
                 \<and> reshape_rows ?N T = Inr B \<and> length B = ?N
                 \<and> (\<forall>r \<in> set B. length r = transformed_size (?ds ! j))"
    if j: "j < ?n" for j
  proof -
    from j have "?ds ! j \<in> set ?ds" by simp
    with conf obtain d0 t where c: "Dimension_set_transformer d0 t = (None, ?ds ! j)" by blast
    have "\<forall>v \<in> set (map (\<lambda>row. row ! j) X). Dimension_contains (?ds ! j) v = Inr True"
    proof
      fix v assume "v \<in> set (map (\<lambda>row. row ! j) X)"
      then obtain row where row: "row \<in> set X" "v = row ! j" by auto
      with rows have "length row = ?n" "contains_loop (zip row ?ds) = Inr True"
        by (simp_all add: n_dims_def Space_contains_def)
      with j row show "Dimension_contains (?ds ! j) v = Inr True"
        using contains_loop_nth [of row ?ds j] by simp
    qed
    from Dimension_transform_shape [OF c this]
    obtain T where T: "Dimension_transform (?ds ! j) (Arr1 (?col j)) = Inr T"
      "arr_shape ?N (transformed_size (?ds ! j)) T"
      by (auto simp: comp_def)
    from reshape_shape [OF N T(2)] T(1) show ?thesis by blast
  qed
  then have "\<forall>j. \<exists>T B. j < ?n \<longrightarrow> (Dimension_transform (?ds ! j) (Arr1 (?col j)) = Inr T
                 \<and> reshape_rows ?N T = Inr B \<and> length B = ?N
                 \<and> (\<forall>r \<in> set B. length r = transformed_size (?ds ! j)))"
    by blast
  then obtain T B where TB: "\<forall>j. j < ?n \<longrightarrow> (Dimension_transform (?ds ! j) (Arr1 (?col j)) = Inr (T j)
                 \<and> reshape_rows ?N (T j) = Inr (B j) \<and> length (B j) = ?N
                 \<and> (\<forall>r \<in> set (B j). length r = transformed_size (?ds ! j)))"
    by metis
  let ?blocks = "map B [0..<?n]"
  have cols: "collect (map (column X) [0..<?n]) = Inr (map ?col [0..<?n])"
  proof (rule collect_map_Inr, rule ballI)
    fix j assume "j \<in> set [0..<?n]"
    then have "\<forall>row \<in> set X. j < length row" using rows by (simp add: n_dims_def)
    then show "column X j = Inr (?col j)" by (rule column_ok)
  qed
  have zipmap: "zip ?ds (map ?col [0..<?n]) = map (\<lambda>j. (?ds ! j, ?col j)) [0..<?n]"
    by (rule nth_equalityI) simp_all
  have "collect (map (\<lambda>j. Dimension_transform (?ds ! j) (Arr1 (?col j))) [0..<?n])
          = Inr (map T [0..<?n])"
    using TB by (intro collect_map_Inr) simp
  then have trans: "collect (map (\<lambda>(d, c). Dimension_transform d (Arr1 c))
                      (zip ?ds (map ?col [0..<?n]))) = Inr (map T [0..<?n])"
    by (simp add: zipmap comp_def)
  have "collect (map (\<lambda>j. reshape_rows ?N (T j)) [0..<?n]) = Inr (map B [0..<?n])"
    using TB by (intro collect_map_Inr) simp
  then have resh: "collect (map (reshape_rows ?N) (map T [0..<?n])) = Inr ?blocks"
    by (simp add: comp_def)
  have "?blocks \<noteq> []" using neD by simp
  moreover have "\<forall>b \<in> set ?blocks. length b = ?N" using TB by auto
  ultimately have "hstack ?blocks
      = Inr (map (\<lambda>i. concat (map (\<lambda>b. b ! i) ?blocks)) [0..<?N])"
    by (rule hstack_ok)
  with cols trans resh
  have res: "Space_transform sp X
      = Inr (map (\<lambda>i. concat (map (\<lambda>b. b ! i) ?blocks)) [0..<?N])"
    by (simp add: Space_transform_def n_dims_def)
  have "length ?blocks = n_dims sp" by (simp add: n_dims_def)
  moreover have "\<forall>j < n_dims sp.
                length (?blocks ! j) = length X
                \<and> (\<forall>r \<in> set (?blocks ! j). length r = transformed_size (?ds ! j))
                \<and> (\<exists>T. Dimension_transform (?ds ! j) (Arr1 (?col j)) = Inr T
                        \<and> reshape_rows (length X) T = Inr (?blocks ! j))"
    using TB by (auto simp: n_dims_def)
  ultimately show ?thesis using res by blast
qed

lemma Space_transform_shape:
  assumes blocks: "length blocks = n_dims sp"
      "\<forall>j < n_dims sp. length (blocks ! j) = n
                \<and> (\<forall>r \<in> set (blocks ! j). length r = transformed_size (dimensions sp ! j))"
    and i: "i < n"
  shows "length (concat (map (\<lambda>b. b ! i) blocks)) = transformed_n_dims sp"
proof -
  have "map (\<lambda>b. length (b ! i)) blocks = map transformed_size (dimensions sp)"
  proof (rule nth_equalityI)
    show "length (map (\<lambda>b. length (b ! i)) blocks) = length (map transformed_size (dimensions sp))"
      using blocks(1) by (simp add: n_dims_def)
  next
    fix j assume "j < length (map (\<lambda>b. length (b ! i)) blocks)"
    then have j: "j < n_dims sp" using blocks(1) by simp
    with blocks(2) i have "blocks ! j ! i \<in> set (blocks ! j)" by simp
    with blocks(2) j have "length (blocks ! j ! i) = transformed_size (dimensions sp ! j)" by blast
    with j blocks(1) show "map (\<lambda>b. length (b ! i)) blocks ! j = map transformed_size (dimensions sp) ! j"
      by (simp add: n_dims_def)
  qed
  then show ?thesis
    by (simp add: length_concat_sum transformed_n_dims_def)
qed

section \<open>Real.inverse_transform stays within the bounds\<close>





section \<open>Round trip: all variants\<close>







section \<open>Space.transform: the shape of the result\<close>

text \<open>
  C4 (as amended): take a Space with at least one dimension, each dimension as a
  successful set_transformer left it, and an input X with at least one row, every row as
  long as there are dimensions and a member of the space. Then transform(X) returns a
  matrix with one row per row of X, every row transformed_n_dims long, the sum of the
  dimensions' transformed_size. Row i is the concatenation, in dimension order, of row i
  of each dimension's block, where the block of dimension j is its transform of column j
  reshaped to one row per sample, transformed_size wide.
\<close>

theorem Space_transform_shape_blocks:
  assumes conf: "\<forall>d \<in> set (dimensions sp). \<exists>d0 t. Dimension_set_transformer d0 t = (None, d)"
    and neX: "X \<noteq> []" and neD: "dimensions sp \<noteq> []"
    and rows: "\<forall>row \<in> set X. length row = n_dims sp \<and> Space_contains sp row = Inr True"
  shows "\<exists>Xt blocks.
           Space_transform sp X = Inr Xt
           \<and> length Xt = length X
           \<and> (\<forall>row \<in> set Xt. length row = transformed_n_dims sp)
           \<and> length blocks = n_dims sp
           \<and> (\<forall>j < n_dims sp.
                length (blocks ! j) = length X
                \<and> (\<forall>r \<in> set (blocks ! j). length r = transformed_size (dimensions sp ! j))
                \<and> (\<exists>T. Dimension_transform (dimensions sp ! j)
                            (Arr1 (map (\<lambda>row. Val (row ! j)) X)) = Inr T
                        \<and> reshape_rows (length X) T = Inr (blocks ! j)))
           \<and> (\<forall>i < length X. Xt ! i = concat (map (\<lambda>b. b ! i) blocks))"
proof -
  from Space_transform_blocks [OF conf neX neD rows]
  obtain blocks where b: "length blocks = n_dims sp"
    "\<forall>j < n_dims sp.
        length (blocks ! j) = length X
        \<and> (\<forall>r \<in> set (blocks ! j). length r = transformed_size (dimensions sp ! j))
        \<and> (\<exists>T. Dimension_transform (dimensions sp ! j)
                    (Arr1 (map (\<lambda>row. Val (row ! j)) X)) = Inr T
                \<and> reshape_rows (length X) T = Inr (blocks ! j))"
    "Space_transform sp X = Inr (map (\<lambda>i. concat (map (\<lambda>b. b ! i) blocks)) [0..<length X])"
    by blast
  let ?Xt = "map (\<lambda>i. concat (map (\<lambda>b. b ! i) blocks)) [0..<length X]"
  have shape: "length (concat (map (\<lambda>b. b ! i) blocks)) = transformed_n_dims sp"
    if "i < length X" for i
    using b(1) _ that by (rule Space_transform_shape) (use b(2) in blast)
  have 1: "length ?Xt = length X" by simp
  have 2: "\<forall>row \<in> set ?Xt. length row = transformed_n_dims sp"
    using shape by auto
  have 3: "\<forall>i < length X. ?Xt ! i = concat (map (\<lambda>b. b ! i) blocks)" by simp
  from b 1 2 3 show ?thesis by blast
qed

lemma Real_0_1_identity:
  "Dimension_set_transformer (Real Real_0_1) ''identity'' = (None, Real Real_0_1)"
  by (simp add: Real_set_transformer_def Let_def uniform_inclusive_def Real_0_1_def)

lemma Categorical_x_y_z_onehot:
  "Dimension_set_transformer (Categorical Categorical_x_y_z) ''onehot''
     = (None, Categorical Categorical_x_y_z)"
  by (simp add: Categorical_set_transformer_def Let_def Categorical_x_y_z_def upt_rec)

theorem Space_transform_shape_blocks_witness:
  "\<exists>Xt. Space_transform \<lparr>dimensions = [Real Real_0_1, Categorical Categorical_x_y_z]\<rparr>
           [[PFloat (1 / 2), PStr ''y''], [PFloat 1, PStr ''z'']] = Inr Xt
        \<and> length Xt = 2 \<and> list_all (\<lambda>row. length row = 4) Xt"
proof -
  let ?sp = "\<lparr>dimensions = [Real Real_0_1, Categorical Categorical_x_y_z]\<rparr>"
  let ?X = "[[PFloat (1 / 2), PStr ''y''], [PFloat 1, PStr ''z'']]"
  have conf: "\<forall>d \<in> set (dimensions ?sp). \<exists>d0 t. Dimension_set_transformer d0 t = (None, d)"
  proof -
    have "\<exists>d0 t. Dimension_set_transformer d0 t = (None, Real Real_0_1)"
      using Real_0_1_identity by (intro exI)
    moreover have "\<exists>d0 t. Dimension_set_transformer d0 t
                      = (None, Categorical Categorical_x_y_z)"
      using Categorical_x_y_z_onehot by (intro exI)
    ultimately show ?thesis by simp
  qed
  have rows: "\<forall>row \<in> set ?X. length row = n_dims ?sp \<and> Space_contains ?sp row = Inr True"
    by (simp add: n_dims_def Space_contains_def Real_contains_def Categorical_contains_def
        Real_0_1_def Categorical_x_y_z_def py_eq_def)
  have n: "transformed_n_dims ?sp = 4"
    by (simp add: transformed_n_dims_def Categorical_transformed_size_def Categorical_x_y_z_def)
  from Space_transform_shape_blocks [OF conf _ _ rows] n
  show ?thesis by (auto simp: list_all_iff)
qed

text \<open>
  The claim as stated fails in three ways. With no rows, \<^verbatim>\<open>reshape((0, -1))\<close> raises;
  with no dimensions, \<^verbatim>\<open>np.hstack\<close> of no arrays raises. And after a set_transformer
  that raised on an unknown mode, the dimension keeps its one-hot transformer while
  transformed_size reads the new mode: the result is three columns wide and
  transformed_n_dims is 1.
\<close>

theorem Space_transform_empty_or_stale:
  "Space_transform \<lparr>dimensions = [Real Real_0_1]\<rparr> [] = Inl ValueError
   \<and> Space_contains \<lparr>dimensions = []\<rparr> [] = Inr True
   \<and> Space_transform \<lparr>dimensions = []\<rparr> [[]] = Inl ValueError
   \<and> Categorical_set_transformer Categorical_x_y_z ''spam''
       = (Some ValueError, Categorical_x_y_z\<lparr>transform_mode := ''spam''\<rparr>)
   \<and> Space_contains
        \<lparr>dimensions = [Categorical (Categorical_x_y_z\<lparr>transform_mode := ''spam''\<rparr>)]\<rparr>
        [PStr ''y''] = Inr True
   \<and> Space_transform
        \<lparr>dimensions = [Categorical (Categorical_x_y_z\<lparr>transform_mode := ''spam''\<rparr>)]\<rparr>
        [[PStr ''y'']] = Inr [[Val (PFloat 0), Val (PFloat 1), Val (PFloat 0)]]
   \<and> transformed_n_dims
        \<lparr>dimensions = [Categorical (Categorical_x_y_z\<lparr>transform_mode := ''spam''\<rparr>)]\<rparr> = 1"
proof -
  have 1: "Space_transform \<lparr>dimensions = [Real Real_0_1]\<rparr> [] = Inl ValueError"
    by (simp add: Space_transform_def n_dims_def column_def Dimension_transform_def
        Real_0_1_def reshape_rows_def)
  have 2: "Space_contains \<lparr>dimensions = []\<rparr> [] = Inr True"
    by (simp add: Space_contains_def)
  have 3: "Space_transform \<lparr>dimensions = []\<rparr> [[]] = Inl ValueError"
    by (simp add: Space_transform_def n_dims_def hstack_def)
  have 4: "Categorical_set_transformer Categorical_x_y_z ''spam''
       = (Some ValueError, Categorical_x_y_z\<lparr>transform_mode := ''spam''\<rparr>)"
    by (simp add: Categorical_set_transformer_def Let_def)
  have 5: "Space_contains
        \<lparr>dimensions = [Categorical (Categorical_x_y_z\<lparr>transform_mode := ''spam''\<rparr>)]\<rparr>
        [PStr ''y''] = Inr True"
    by (simp add: Space_contains_def Categorical_contains_def Categorical_x_y_z_def py_eq_def)
  have enc: "transformer_transform (CategoricalEncoder [PStr ''x'', PStr ''y'', PStr ''z''])
               (Arr1 [Val (PStr ''y'')])
             = Inr (Arr2 [[Val (PFloat 0), Val (PFloat 1), Val (PFloat 0)]])"
    by (simp add: CategoricalEncoder_transform_def onehot_row_def label_of_def py_eq_def
        onehot_def upt_rec)
  have resh: "reshape_rows (length [[PStr ''y'']])
                (Arr2 [[Val (PFloat 0), Val (PFloat 1), Val (PFloat 0)]])
              = Inr [[Val (PFloat 0), Val (PFloat 1), Val (PFloat 0)]]"
    using reshape_Arr2 [of "[[Val (PFloat 0), Val (PFloat 1), Val (PFloat 0)]]" 3] by simp
  have 6: "Space_transform
        \<lparr>dimensions = [Categorical (Categorical_x_y_z\<lparr>transform_mode := ''spam''\<rparr>)]\<rparr>
        [[PStr ''y'']] = Inr [[Val (PFloat 0), Val (PFloat 1), Val (PFloat 0)]]"
    using enc resh
    by (simp add: Space_transform_def n_dims_def column_def Dimension_transform_def
        Categorical_x_y_z_def hstack_def)
  have 7: "transformed_n_dims
        \<lparr>dimensions = [Categorical (Categorical_x_y_z\<lparr>transform_mode := ''spam''\<rparr>)]\<rparr> = 1"
    by (simp add: transformed_n_dims_def Categorical_transformed_size_def)
  from 1 2 3 4 5 6 7 show ?thesis by simp
qed

section \<open>The width of the inclusive uniform distribution\<close>

lemma floor_log2_between:
  assumes "2 ^ k \<le> x" "x < 2 ^ Suc k"
  shows "\<lfloor>log 2 x\<rfloor> = int k"
proof -
  have pos: "0 < x" using assms(1) by (smt (verit) zero_less_power)
  have "real k \<le> log 2 x"
    using assms(1) pos by (simp add: le_log_iff powr_realpow)
  moreover have "log 2 x < real k + 1"
    using assms(2) pos by (simp add: log_less_iff powr_realpow powr_add)
  ultimately show ?thesis by linarith
qed

lemma ulp_2_53: "ulp (2 ^ 53) = 2" "ulp (2 ^ 53 + 1) = 2"
proof -
  have a: "\<lfloor>log 2 (2 ^ 53 :: real)\<rfloor> = int 53"
    by (rule floor_log2_between) simp_all
  have b: "\<lfloor>log 2 (2 ^ 53 + 1 :: real)\<rfloor> = int 53"
    by (rule floor_log2_between) simp_all
  show "ulp (2 ^ 53) = 2" using a by (simp add: ulp_def)
  show "ulp (2 ^ 53 + 1) = 2" using b by (simp add: ulp_def)
qed

lemma ulp_1: "ulp 1 = 1 / 2 ^ 52" "ulp 2 = 1 / 2 ^ 51"
proof -
  show "ulp 1 = 1 / 2 ^ 52" unfolding ulp_def by (simp add: powr_minus_divide)
  have "\<lfloor>log 2 (2 :: real)\<rfloor> = 1" by simp
  then show "ulp 2 = 1 / 2 ^ 51" unfolding ulp_def by (simp add: powr_minus_divide)
qed

text \<open>In binary64, \<open>2\<^sup>5\<^sup>3 + 1\<close> is a tie between \<open>2\<^sup>5\<^sup>3\<close> and \<open>2\<^sup>5\<^sup>3 + 2\<close>, and rounds to \<open>2\<^sup>5\<^sup>3\<close>.\<close>

lemma fadd_2_53: "fadd (2 ^ 53) 1 = 2 ^ 53"
proof -
  have f: "\<lfloor>(2 ^ 53 + 1) / 2 :: real\<rfloor> = 2 ^ 52" by (simp add: floor_eq_iff)
  have "np_round ((2 ^ 53 + 1) / 2) = 2 ^ 52"
    unfolding np_round_def Let_def f by simp
  then show ?thesis using ulp_2_53(2) by (simp add: fadd_def fl_def)
qed

lemma fadd_1_1: "fadd 1 1 = 2"
proof -
  have "2 / ulp 2 = real_of_int (2 ^ 52)" unfolding ulp_1(2) by simp
  then have "np_round (2 / ulp 2) = 2 ^ 52" by (simp only: np_round_of_int)
  then have "real_of_int (np_round (2 / ulp 2)) * ulp 2 = 2" unfolding ulp_1(2) by simp
  then show ?thesis by (simp add: fadd_def fl_def)
qed

text \<open>
  C5: for every Real dimension that samples from a continuous uniform distribution, the
  claim is that the width handed to the generator is one representable step above the
  nominal width. \<^verbatim>\<open>Real(0, 2**53)\<close> with the uniform prior and the identity transform has
  the nominal width \<open>2\<^sup>5\<^sup>3\<close>; there \<^verbatim>\<open>scale + 1.\<close> is \<^verbatim>\<open>scale\<close>, and
  \<^verbatim>\<open>np.nextafter(scale, scale)\<close> is \<^verbatim>\<open>scale\<close>: the width is not widened. For the width 1 of
  the normalize modes it is widened by one step, to \<open>1 + 2\<^sup>-\<^sup>5\<^sup>2\<close>.
\<close>

theorem uniform_inclusive_not_widened:
  "Real_init (PInt 0) (PInt (2 ^ 53)) (PStr ''uniform'') (PInt 10) None PNone (DType ''float'')
     = Inr \<lparr>name = None, transform_mode = ''identity'', transformer = Some Identity,
            rvs_dist = Some (UniformInclusive 0 (2 ^ 53)), low = 0, high = 2 ^ 53,
            prior = ''uniform'', base = 10, log_base = 1, dtype = DType ''float''\<rparr>
   \<and> generator_scale (UniformInclusive 0 (2 ^ 53)) = Some (2 ^ 53)
   \<and> generator_scale (UniformInclusive 0 1) = Some (1 + 1 / 2 ^ 52)"
proof -
  have 1: "Real_init (PInt 0) (PInt (2 ^ 53)) (PStr ''uniform'') (PInt 10) None PNone
             (DType ''float'')
     = Inr \<lparr>name = None, transform_mode = ''identity'', transformer = Some Identity,
            rvs_dist = Some (UniformInclusive 0 (2 ^ 53)), low = 0, high = 2 ^ 53,
            prior = ''uniform'', base = 10, log_base = 1, dtype = DType ''float''\<rparr>"
    by (simp add: Real_init_def Real_dtype_ok_def Real_set_transformer_def Let_def
        uniform_inclusive_def)
  have 2: "generator_scale (UniformInclusive 0 (2 ^ 53)) = Some (2 ^ 53)"
    using fadd_2_53 by (simp add: nextafter_def)
  have 3: "generator_scale (UniformInclusive 0 1) = Some (1 + 1 / 2 ^ 52)"
    using fadd_1_1 ulp_1(1) by (simp add: nextafter_def)
  from 1 2 3 show ?thesis by (simp only: simp_thms)
qed

end
